theory Spec2Isabelle
  imports Main "HOL-Library.Multiset" "HOL-Library.Sublist"
begin

section \<open>Cards (entities/Card)\<close>

text \<open>
  The rule engine of the Klondike game: \<open>Card\<close>, \<open>CardStack\<close>, \<open>Deck\<close>, \<open>GameState\<close>
  and \<open>GameLogic\<close>, with the parts of \<open>GameController\<close> that set up the board and
  call the engine. Rendering state (PIXI containers, sprites, drag flags, positions,
  \<open>stackIndex\<close>), console logging, DOM updates, the statistics and local storage, and
  the wall clock (\<open>startTime\<close>, the timestamp of a move record) are left out: no rule
  reads them. Numbers are integers. A parameter of class type is a reference to an
  object, never \<open>null\<close>, so the guards \<open>!card\<close>, \<open>!toStack\<close> and \<open>!moveData\<close> are
  not branches of the model.

  A \<open>Card\<close> is a mutable object. Its read-only fields \<open>suit\<close> and \<open>rank\<close> together with
  an object identity \<open>cid\<close> make up the reference; the mutable fields \<open>faceUp\<close> and
  \<open>currentStack\<close> live in the store of the game, indexed by the reference, so that a
  flip is seen through every array that holds the card.
\<close>

datatype suit = Hearts | Diamonds | Clubs | Spades

datatype rank = RA | R2 | R3 | R4 | R5 | R6 | R7 | R8 | R9 | R10 | RJ | RQ | RK

datatype stack_type = Stock | Waste | Foundation | Tableau

datatype card = Card (cid: nat) (suit: suit) (rank: rank)

fun rankValue :: "rank \<Rightarrow> int" where
  "rankValue RA = 1"
| "rankValue RJ = 11"
| "rankValue RQ = 12"
| "rankValue RK = 13"
| "rankValue R2 = 2"
| "rankValue R3 = 3"
| "rankValue R4 = 4"
| "rankValue R5 = 5"
| "rankValue R6 = 6"
| "rankValue R7 = 7"
| "rankValue R8 = 8"
| "rankValue R9 = 9"
| "rankValue R10 = 10"

definition getValue :: "card \<Rightarrow> int" where
  "getValue c = rankValue (rank c)"

definition isRed :: "card \<Rightarrow> bool" where
  "isRed c = (suit c = Hearts \<or> suit c = Diamonds)"

definition isBlack :: "card \<Rightarrow> bool" where
  "isBlack c = (suit c = Clubs \<or> suit c = Spades)"

fun rankString :: "rank \<Rightarrow> string" where
  "rankString RA = ''A''"
| "rankString R2 = ''2''"
| "rankString R3 = ''3''"
| "rankString R4 = ''4''"
| "rankString R5 = ''5''"
| "rankString R6 = ''6''"
| "rankString R7 = ''7''"
| "rankString R8 = ''8''"
| "rankString R9 = ''9''"
| "rankString R10 = ''10''"
| "rankString RJ = ''J''"
| "rankString RQ = ''Q''"
| "rankString RK = ''K''"

fun suitString :: "suit \<Rightarrow> string" where
  "suitString Hearts = ''hearts''"
| "suitString Diamonds = ''diamonds''"
| "suitString Clubs = ''clubs''"
| "suitString Spades = ''spades''"

fun typeString :: "stack_type \<Rightarrow> string" where
  "typeString Stock = ''stock''"
| "typeString Waste = ''waste''"
| "typeString Foundation = ''foundation''"
| "typeString Tableau = ''tableau''"

definition toString :: "card \<Rightarrow> string" where
  "toString c = rankString (rank c) @ ''_'' @ suitString (suit c)"


section \<open>Stacks (entities/CardStack.ts)\<close>

text \<open>
  \<open>stype\<close> and \<open>sindex\<close> are the fields \<open>type\<close> and \<open>index\<close> of the class; \<open>cards\<close> is
  the array, bottom first. The methods that only read take the stack and, where they
  look at a face, the \<open>faceUp\<close> field of the store.
\<close>

record cardstack =
  stype :: stack_type
  sindex :: nat
  cards :: "card list"

definition getTopCard :: "cardstack \<Rightarrow> card option" where
  "getTopCard s =
     (if length (cards s) > 0 then Some (cards s ! (length (cards s) - 1)) else None)"

definition getCardCount :: "cardstack \<Rightarrow> nat" where
  "getCardCount s = length (cards s)"

definition isEmpty :: "cardstack \<Rightarrow> bool" where
  "isEmpty s = (length (cards s) = 0)"

definition canPlaceOnFoundation :: "cardstack \<Rightarrow> card \<Rightarrow> bool" where
  "canPlaceOnFoundation s c =
     (if isEmpty s then getValue c = 1
      else (case getTopCard s of
              None \<Rightarrow> False
            | Some topCard \<Rightarrow>
                (let isSameSuit = (suit c = suit topCard);
                     isOneMore = (getValue c = getValue topCard + 1)
                 in isSameSuit \<and> isOneMore)))"

definition canPlaceOnTableau :: "(card \<Rightarrow> bool) \<Rightarrow> cardstack \<Rightarrow> card \<Rightarrow> bool" where
  "canPlaceOnTableau fu s c =
     (if isEmpty s then getValue c = 13
      else (case getTopCard s of
              None \<Rightarrow> False
            | Some topCard \<Rightarrow>
                (if \<not> fu topCard then False
                 else isRed c \<noteq> isRed topCard \<and> getValue c = getValue topCard - 1)))"

definition canAcceptCard :: "(card \<Rightarrow> bool) \<Rightarrow> cardstack \<Rightarrow> card \<Rightarrow> bool" where
  "canAcceptCard fu s c =
     (case stype s of
        Foundation \<Rightarrow> canPlaceOnFoundation s c
      | Tableau \<Rightarrow> canPlaceOnTableau fu s c
      | Waste \<Rightarrow> False
      | Stock \<Rightarrow> False)"

text \<open>
  The loop of \<open>getValidSequence\<close>, from \<open>i = 1\<close>: \<open>prevCard\<close> is \<open>cards[i - 1]\<close>, the
  list is \<open>cards[i..]\<close>; each \<open>break\<close> ends the run.
\<close>

fun validSequenceLoop :: "(card \<Rightarrow> bool) \<Rightarrow> card \<Rightarrow> card list \<Rightarrow> card list" where
  "validSequenceLoop fu prevCard [] = []"
| "validSequenceLoop fu prevCard (currCard # rest) =
     (if \<not> fu prevCard \<or> \<not> fu currCard then []
      else if isRed prevCard = isRed currCard then []
      else if getValue prevCard \<noteq> getValue currCard + 1 then []
      else currCard # validSequenceLoop fu currCard rest)"

fun getValidSequence :: "(card \<Rightarrow> bool) \<Rightarrow> card list \<Rightarrow> card list" where
  "getValidSequence fu [] = []"
| "getValidSequence fu (c # cs) = c # validSequenceLoop fu c cs"

definition getCardsFromIndex :: "(card \<Rightarrow> bool) \<Rightarrow> cardstack \<Rightarrow> int \<Rightarrow> card list" where
  "getCardsFromIndex fu s startIndex =
     (if startIndex < 0 \<or> startIndex \<ge> int (length (cards s)) then []
      else (let cardsFromIndex = drop (nat startIndex) (cards s)
            in if stype s = Tableau then getValidSequence fu cardsFromIndex
               else cardsFromIndex))"


section \<open>Game state (game/GameState.ts)\<close>

text \<open>
  A move record (\<open>MoveData\<close>): the tag is a string in the source, the other fields are
  optional. \<open>mcard\<close>, \<open>mcards\<close>, \<open>mcount\<close>, \<open>mfrom\<close>, \<open>mto\<close> and \<open>mstack\<close> are the
  fields \<open>card\<close>, \<open>cards\<close>, \<open>count\<close>, \<open>from\<close>, \<open>to\<close> and \<open>stack\<close>.
\<close>

record move_data =
  mtype :: string
  mcard :: "string option"
  mcards :: "string list option"
  mcount :: "int option"
  mfrom :: "string option"
  mto :: "string option"
  fromIndex :: "nat option"
  toIndex :: "nat option"
  moveNumber :: "int option"
  mstack :: "string option"
  stackIndex :: "nat option"

definition moveOfType :: "string \<Rightarrow> move_data" where
  "moveOfType t =
     \<lparr>mtype = t, mcard = None, mcards = None, mcount = None, mfrom = None, mto = None,
      fromIndex = None, toIndex = None, moveNumber = None, mstack = None,
      stackIndex = None\<rparr>"

record game_settings =
  drawCount :: int
  allowUndo :: bool
  showTimer :: bool
  autoComplete :: bool
  hintEnabled :: bool

record gamestate =
  isGameStarted :: bool
  isGameCompleted :: bool
  isPaused :: bool
  currentTime :: int
  score :: int
  moves :: int
  foundationCards :: int
  moveHistory :: "move_data list"
  settings :: game_settings

definition maxHistorySize :: nat where
  "maxHistorySize = 100"

definition TOTAL_CARDS :: int where
  "TOTAL_CARDS = 52"

definition calculateScore :: "int \<Rightarrow> int \<Rightarrow> int \<Rightarrow> int" where
  "calculateScore mv time fc =
     (let score0 = fc * 10;
          timeBonus = max 0 (500 - time div 10);
          score1 = score0 + timeBonus;
          movePenalty = mv div 2
      in max 0 (score1 - movePenalty))"

definition defaultSettings :: game_settings where
  "defaultSettings =
     \<lparr>drawCount = 3, allowUndo = True, showTimer = True, autoComplete = True,
      hintEnabled = True\<rparr>"

definition reset :: "gamestate \<Rightarrow> gamestate" where
  "reset gs =
     gs\<lparr>isGameStarted := False, isGameCompleted := False, isPaused := False,
        currentTime := 0, score := 0, moves := 0, foundationCards := 0,
        moveHistory := []\<rparr>"

definition newGameState :: gamestate where
  "newGameState =
     \<lparr>isGameStarted = False, isGameCompleted = False, isPaused = False,
      currentTime = 0, score = 0, moves = 0, foundationCards = 0,
      moveHistory = [], settings = defaultSettings\<rparr>"

definition startGame :: "gamestate \<Rightarrow> gamestate" where
  "startGame gs =
     (if isGameStarted gs then gs
      else gs\<lparr>isGameStarted := True, currentTime := 0\<rparr>)"

definition completeGame :: "gamestate \<Rightarrow> gamestate" where
  "completeGame gs =
     (if isGameCompleted gs then gs
      else gs\<lparr>isGameCompleted := True, isGameStarted := False,
              score := calculateScore (moves gs) (currentTime gs) (foundationCards gs)\<rparr>)"

definition togglePause :: "gamestate \<Rightarrow> gamestate" where
  "togglePause gs =
     (if \<not> isGameStarted gs \<or> isGameCompleted gs then gs
      else if isPaused gs then gs\<lparr>isPaused := False\<rparr>
      else gs\<lparr>isPaused := True\<rparr>)"

definition recordMove :: "gamestate \<Rightarrow> move_data \<Rightarrow> gamestate" where
  "recordMove gs moveData =
     (if \<not> isGameStarted gs then gs
      else
        (let moves' = moves gs + 1;
             pushed = moveHistory gs @ [moveData\<lparr>moveNumber := Some moves'\<rparr>];
             limited = (if length pushed > maxHistorySize then tl pushed else pushed)
         in gs\<lparr>moves := moves', moveHistory := limited\<rparr>))"

definition undoLastMove :: "gamestate \<Rightarrow> move_data option \<times> gamestate" where
  "undoLastMove gs =
     (if \<not> allowUndo (settings gs) \<or> length (moveHistory gs) = 0 then (None, gs)
      else
        (let lastMove = last (moveHistory gs)
         in (Some lastMove,
             gs\<lparr>moveHistory := butlast (moveHistory gs),
                moves := max 0 (moves gs - 1)\<rparr>)))"

definition updateScore :: "gamestate \<Rightarrow> gamestate" where
  "updateScore gs =
     (if \<not> isGameStarted gs then gs
      else gs\<lparr>score := calculateScore (moves gs) (currentTime gs) (foundationCards gs)\<rparr>)"

definition addToFoundation :: "gamestate \<Rightarrow> bool \<times> gamestate" where
  "addToFoundation gs =
     (let gs1 = gs\<lparr>foundationCards := foundationCards gs + 1\<rparr>
      in if foundationCards gs1 = TOTAL_CARDS then (True, completeGame gs1)
         else (False, updateScore gs1))"

definition removeFromFoundation :: "gamestate \<Rightarrow> gamestate" where
  "removeFromFoundation gs =
     updateScore (gs\<lparr>foundationCards := max 0 (foundationCards gs - 1)\<rparr>)"

definition canUndo :: "gamestate \<Rightarrow> bool" where
  "canUndo gs =
     (allowUndo (settings gs) \<and> length (moveHistory gs) > 0 \<and> isGameStarted gs
      \<and> \<not> isGameCompleted gs)"

definition isPlaying :: "gamestate \<Rightarrow> bool" where
  "isPlaying gs = (isGameStarted gs \<and> \<not> isPaused gs \<and> \<not> isGameCompleted gs)"


section \<open>The store, and the methods that write to it\<close>

text \<open>
  Stacks are objects too: a reference to a stack is a number, \<open>stacks\<close> maps it to the
  object, and two parameters alias when the references are equal. \<open>faceUp\<close> and
  \<open>currentStack\<close> are the mutable fields of the cards.
\<close>

record game =
  stacks :: "nat \<Rightarrow> cardstack"
  faceUp :: "card \<Rightarrow> bool"
  currentStack :: "card \<Rightarrow> nat option"
  gameState :: gamestate

text \<open>\<open>Array.indexOf\<close>: the first position of the element, or \<open>-1\<close>.\<close>

fun indexOf :: "'a list \<Rightarrow> 'a \<Rightarrow> int" where
  "indexOf [] x = - 1"
| "indexOf (y # ys) x =
     (if y = x then 0 else (let i = indexOf ys x in if i = - 1 then - 1 else i + 1))"

text \<open>\<open>Array.splice(index, 1)\<close> at an index in range.\<close>

definition splice1 :: "'a list \<Rightarrow> int \<Rightarrow> 'a list" where
  "splice1 xs i = take (nat i) xs @ drop (nat i + 1) xs"

definition flip :: "game \<Rightarrow> card \<Rightarrow> bool \<Rightarrow> game" where
  "flip g c up = g\<lparr>faceUp := (faceUp g)(c := up)\<rparr>"

definition addCard :: "game \<Rightarrow> nat \<Rightarrow> card \<Rightarrow> game" where
  "addCard g s c =
     g\<lparr>stacks := (stacks g)(s := (stacks g s)\<lparr>cards := cards (stacks g s) @ [c]\<rparr>),
       currentStack := (currentStack g)(c := Some s)\<rparr>"

definition removeCard :: "game \<Rightarrow> nat \<Rightarrow> card \<Rightarrow> game" where
  "removeCard g s c =
     (let index = indexOf (cards (stacks g s)) c
      in if index \<noteq> - 1
         then g\<lparr>stacks := (stacks g)(s := (stacks g s)\<lparr>cards := splice1 (cards (stacks g s)) index\<rparr>),
                currentStack := (currentStack g)(c := None)\<rparr>
         else g)"


section \<open>The rule engine (GameLogic)\<close>

definition canMoveToFoundation :: "game \<Rightarrow> card \<Rightarrow> nat \<Rightarrow> bool" where
  "canMoveToFoundation g c foundationStack =
     (let foundationCards = cards (stacks g foundationStack)
      in if length foundationCards = 0 then getValue c = 1
         else (let topCard = foundationCards ! (length foundationCards - 1)
               in suit c = suit topCard \<and> getValue c = getValue topCard + 1))"

definition canMoveToTableau :: "game \<Rightarrow> card \<Rightarrow> nat \<Rightarrow> bool" where
  "canMoveToTableau g c tableauStack =
     (let tableauCards = cards (stacks g tableauStack)
      in if length tableauCards = 0 then getValue c = 13
         else (let topCard = tableauCards ! (length tableauCards - 1)
               in if \<not> faceUp g topCard then False
                  else isRed c \<noteq> isRed topCard \<and> getValue c = getValue topCard - 1))"

definition validateMove :: "game \<Rightarrow> card \<Rightarrow> nat \<Rightarrow> nat \<Rightarrow> bool" where
  "validateMove g c fromStack toStack =
     (if \<not> isPlaying (gameState g) then False
      else if \<not> faceUp g c then False
      else (case stype (stacks g toStack) of
              Foundation \<Rightarrow> canMoveToFoundation g c toStack
            | Tableau \<Rightarrow> canMoveToTableau g c toStack
            | Waste \<Rightarrow> False
            | Stock \<Rightarrow> False))"

text \<open>The loop of \<open>areCardsSequential\<close>, from \<open>i = 1\<close>, with \<open>prevCard = cards[i - 1]\<close>.\<close>

fun sequentialLoop :: "(card \<Rightarrow> bool) \<Rightarrow> card \<Rightarrow> card list \<Rightarrow> bool" where
  "sequentialLoop fu prevCard [] = True"
| "sequentialLoop fu prevCard (currCard # rest) =
     (if \<not> fu prevCard \<or> \<not> fu currCard then False
      else if isRed prevCard = isRed currCard then False
      else if getValue prevCard \<noteq> getValue currCard + 1 then False
      else sequentialLoop fu currCard rest)"

fun areCardsSequential :: "(card \<Rightarrow> bool) \<Rightarrow> card list \<Rightarrow> bool" where
  "areCardsSequential fu [] = True"
| "areCardsSequential fu (c # cs) = sequentialLoop fu c cs"

definition validateMultiCardMove :: "game \<Rightarrow> card list \<Rightarrow> nat \<Rightarrow> nat \<Rightarrow> bool" where
  "validateMultiCardMove g cs fromStack toStack =
     (if length cs = 0 then False
      else if stype (stacks g fromStack) \<noteq> Tableau then False
      else if \<not> areCardsSequential (faceUp g) cs then False
      else validateMove g (cs ! 0) fromStack toStack)"


text \<open>
  The loop of \<open>drawFromStock\<close>: \<open>n\<close> counts the iterations that are left. Each one reads
  the top of the stock and, when there is one, moves it to the waste face up.
\<close>

fun drawLoop :: "nat \<Rightarrow> nat \<Rightarrow> nat \<Rightarrow> game \<times> card list \<Rightarrow> game \<times> card list" where
  "drawLoop 0 stockStack wasteStack (g, drawnCards) = (g, drawnCards)"
| "drawLoop (Suc n) stockStack wasteStack (g, drawnCards) =
     (case getTopCard (stacks g stockStack) of
        None \<Rightarrow> drawLoop n stockStack wasteStack (g, drawnCards)
      | Some c \<Rightarrow>
          drawLoop n stockStack wasteStack
            (addCard (flip (removeCard g stockStack c) c True) wasteStack c,
             drawnCards @ [c]))"

definition recycleWasteToStock :: "game \<Rightarrow> nat \<Rightarrow> nat \<Rightarrow> card list \<times> game" where
  "recycleWasteToStock g stockStack wasteStack =
     (if isEmpty (stacks g wasteStack) then ([], g)
      else
        (let cs = rev (cards (stacks g wasteStack));
             g1 = fold (\<lambda>c h. addCard (flip (removeCard h wasteStack c) c False) stockStack c)
                    cs g;
             g2 = g1\<lparr>gameState :=
                      recordMove (gameState g1)
                        ((moveOfType ''waste_to_stock'')\<lparr>mcount := Some (int (length cs))\<rparr>)\<rparr>
         in (cs, g2)))"

definition drawFromStock :: "game \<Rightarrow> nat \<Rightarrow> nat \<Rightarrow> card list \<times> game" where
  "drawFromStock g stockStack wasteStack =
     (if isEmpty (stacks g stockStack) then recycleWasteToStock g stockStack wasteStack
      else
        (let drawCount = min (drawCount (settings (gameState g)))
                             (int (getCardCount (stacks g stockStack)));
             (g1, drawnCards) = drawLoop (nat drawCount) stockStack wasteStack (g, []);
             g2 = g1\<lparr>gameState :=
                      recordMove (gameState g1)
                        ((moveOfType ''stock_to_waste'')
                           \<lparr>mcards := Some (map toString drawnCards),
                            mcount := Some (int (length drawnCards))\<rparr>)\<rparr>
         in (drawnCards, g2)))"

definition findCardsToFlip :: "game \<Rightarrow> nat list \<Rightarrow> card list" where
  "findCardsToFlip g tableauStacks =
     concat (map (\<lambda>stack. case getTopCard (stacks g stack) of
                             None \<Rightarrow> []
                           | Some topCard \<Rightarrow> if \<not> faceUp g topCard then [topCard] else [])
                 tableauStacks)"

definition executeCardFlip :: "game \<Rightarrow> card \<Rightarrow> bool \<times> game" where
  "executeCardFlip g c =
     (if faceUp g c then (False, g)
      else
        (let g1 = flip g c True;
             md = (moveOfType ''card_flip'')
                    \<lparr>mcard := Some (toString c),
                     mstack := Some (case currentStack g1 c of
                                       None \<Rightarrow> ''unknown''
                                     | Some s \<Rightarrow> typeString (stype (stacks g1 s))),
                     stackIndex := Some (case currentStack g1 c of
                                           None \<Rightarrow> 0
                                         | Some s \<Rightarrow> sindex (stacks g1 s))\<rparr>
         in (True, g1\<lparr>gameState := recordMove (gameState g1) md\<rparr>)))"

text \<open>
  A hint, and an entry of the auto-complete list: \<open>hcard\<close>, \<open>hfromStack\<close>, \<open>htoStack\<close>
  and \<open>htype\<close> are the fields \<open>card\<close>, \<open>fromStack\<close>, \<open>toStack\<close> and \<open>type\<close>.
\<close>

record hint =
  hcard :: card
  hfromStack :: nat
  htoStack :: nat
  htype :: "string option"

definition findAutoCompletableCards :: "game \<Rightarrow> nat list \<Rightarrow> hint list" where
  "findAutoCompletableCards g allStacks =
     (let foundationStacks = filter (\<lambda>s. stype (stacks g s) = Foundation) allStacks
      in concat (map (\<lambda>stack.
           if stype (stacks g stack) = Foundation then []
           else (case getTopCard (stacks g stack) of
                   None \<Rightarrow> []
                 | Some topCard \<Rightarrow>
                     if \<not> faceUp g topCard then []
                     else map (\<lambda>foundationStack.
                                 \<lparr>hcard = topCard, hfromStack = stack,
                                  htoStack = foundationStack, htype = None\<rparr>)
                              (filter (\<lambda>foundationStack.
                                         canMoveToFoundation g topCard foundationStack)
                                      foundationStacks)))
           allStacks))"

definition findHints :: "game \<Rightarrow> nat list \<Rightarrow> hint list" where
  "findHints g allStacks =
     (let autoCompletable = findAutoCompletableCards g allStacks;
          tableauStacks = filter (\<lambda>s. stype (stacks g s) = Tableau) allStacks;
          wasteStack = find (\<lambda>s. stype (stacks g s) = Waste) allStacks;
          wasteHints =
            (case wasteStack of
               None \<Rightarrow> []
             | Some ws \<Rightarrow>
                 if isEmpty (stacks g ws) then []
                 else (case getTopCard (stacks g ws) of
                         None \<Rightarrow> []
                       | Some wasteTopCard \<Rightarrow>
                           if \<not> faceUp g wasteTopCard then []
                           else map (\<lambda>tableauStack.
                                       \<lparr>hcard = wasteTopCard, hfromStack = ws,
                                        htoStack = tableauStack, htype = None\<rparr>)
                                    (filter (\<lambda>tableauStack.
                                               canMoveToTableau g wasteTopCard tableauStack)
                                            tableauStacks)));
          tableauHints =
            concat (map (\<lambda>fromStack.
              case getTopCard (stacks g fromStack) of
                None \<Rightarrow> []
              | Some topCard \<Rightarrow>
                  if \<not> faceUp g topCard then []
                  else map (\<lambda>toStack.
                              \<lparr>hcard = topCard, hfromStack = fromStack,
                               htoStack = toStack, htype = None\<rparr>)
                           (filter (\<lambda>toStack. fromStack \<noteq> toStack
                                               \<and> canMoveToTableau g topCard toStack)
                                   tableauStacks))
              tableauStacks);
          cardsToFlip = findCardsToFlip g tableauStacks;
          flipHints =
            concat (map (\<lambda>c. case currentStack g c of
                                None \<Rightarrow> []
                              | Some cs \<Rightarrow>
                                  [\<lparr>hcard = c, hfromStack = cs, htoStack = cs,
                                    htype = Some ''flip''\<rparr>])
                        cardsToFlip)
      in autoCompletable @ wasteHints @ tableauHints @ flipHints)"

definition isGameComplete :: "game \<Rightarrow> nat list \<Rightarrow> bool" where
  "isGameComplete g foundationStacks =
     (fold (\<lambda>stack sum. sum + int (getCardCount (stacks g stack))) foundationStacks 0
        = TOTAL_CARDS)"

definition isGameBlocked :: "game \<Rightarrow> nat list \<Rightarrow> bool" where
  "isGameBlocked g allStacks =
     (let hints = findHints g allStacks;
          stockStack = find (\<lambda>s. stype (stacks g s) = Stock) allStacks;
          wasteStack = find (\<lambda>s. stype (stacks g s) = Waste) allStacks;
          canDrawFromStock =
            (case stockStack of None \<Rightarrow> False | Some s \<Rightarrow> \<not> isEmpty (stacks g s));
          canDrawFromWaste =
            (case wasteStack of None \<Rightarrow> False | Some s \<Rightarrow> \<not> isEmpty (stacks g s))
      in length hints = 0 \<and> \<not> canDrawFromStock \<and> \<not> canDrawFromWaste)"

definition executeSingleCardMove :: "game \<Rightarrow> card \<Rightarrow> nat \<Rightarrow> nat \<Rightarrow> bool \<times> game" where
  "executeSingleCardMove g c fromStack toStack =
     (if \<not> validateMove g c fromStack toStack then (False, g)
      else
        (let g1 = removeCard g fromStack c;
             g2 = addCard g1 toStack c;
             toFoundation = (stype (stacks g2 toStack) = Foundation);
             (isGameComplete, gs3) =
               (if toFoundation then addToFoundation (gameState g2)
                else (False, gameState g2));
             g3 = g2\<lparr>gameState := gs3\<rparr>
         in if toFoundation \<and> isGameComplete then (True, g3)
            else
              (let g4 = (if stype (stacks g3 fromStack) = Foundation
                         then g3\<lparr>gameState := removeFromFoundation (gameState g3)\<rparr>
                         else g3);
                   md = (moveOfType ''card_move'')
                          \<lparr>mcard := Some (toString c),
                           mfrom := Some (typeString (stype (stacks g4 fromStack))),
                           mto := Some (typeString (stype (stacks g4 toStack))),
                           fromIndex := Some (sindex (stacks g4 fromStack)),
                           toIndex := Some (sindex (stacks g4 toStack))\<rparr>
               in (True, g4\<lparr>gameState := recordMove (gameState g4) md\<rparr>))))"

definition executeMultiCardMove :: "game \<Rightarrow> card list \<Rightarrow> nat \<Rightarrow> nat \<Rightarrow> bool \<times> game" where
  "executeMultiCardMove g cs fromStack toStack =
     (if \<not> validateMultiCardMove g cs fromStack toStack then (False, g)
      else
        (let g1 = fold (\<lambda>c h. addCard (removeCard h fromStack c) toStack c) cs g;
             md = (moveOfType ''multi_card_move'')
                    \<lparr>mcards := Some (map toString cs),
                     mcount := Some (int (length cs)),
                     mfrom := Some (typeString (stype (stacks g1 fromStack))),
                     mto := Some (typeString (stype (stacks g1 toStack))),
                     fromIndex := Some (sindex (stacks g1 fromStack)),
                     toIndex := Some (sindex (stacks g1 toStack))\<rparr>
         in (True, g1\<lparr>gameState := recordMove (gameState g1) md\<rparr>)))"

text \<open>The five reversal handlers: each logs the record and returns \<open>true\<close>.\<close>

definition undoCardMove :: "game \<Rightarrow> move_data \<Rightarrow> bool \<times> game" where
  "undoCardMove g moveData = (True, g)"

definition undoMultiCardMove :: "game \<Rightarrow> move_data \<Rightarrow> bool \<times> game" where
  "undoMultiCardMove g moveData = (True, g)"

definition undoStockToWaste :: "game \<Rightarrow> move_data \<Rightarrow> bool \<times> game" where
  "undoStockToWaste g moveData = (True, g)"

definition undoWasteToStock :: "game \<Rightarrow> move_data \<Rightarrow> bool \<times> game" where
  "undoWasteToStock g moveData = (True, g)"

definition undoCardFlip :: "game \<Rightarrow> move_data \<Rightarrow> bool \<times> game" where
  "undoCardFlip g moveData = (True, g)"

definition undoMove :: "game \<Rightarrow> move_data \<Rightarrow> bool \<times> game" where
  "undoMove g moveData =
     (if mtype moveData = ''card_move'' then undoCardMove g moveData
      else if mtype moveData = ''multi_card_move'' then undoMultiCardMove g moveData
      else if mtype moveData = ''stock_to_waste'' then undoStockToWaste g moveData
      else if mtype moveData = ''waste_to_stock'' then undoWasteToStock g moveData
      else if mtype moveData = ''card_flip'' then undoCardFlip g moveData
      else (False, g))"

definition executeAutoComplete :: "game \<Rightarrow> nat list \<Rightarrow> bool \<times> game" where
  "executeAutoComplete g allStacks =
     (let completableCards = findAutoCompletableCards g allStacks
      in if length completableCards = 0 then (False, g)
         else (True,
               fold (\<lambda>h k. snd (executeSingleCardMove k (hcard h) (hfromStack h) (htoStack h)))
                    completableCards g))"



section \<open>Dealing (entities/Deck.ts) and the controller's board\<close>

definition SUITS :: "suit list" where
  "SUITS = [Hearts, Diamonds, Clubs, Spades]"

definition RANKS :: "rank list" where
  "RANKS = [RA, R2, R3, R4, R5, R6, R7, R8, R9, R10, RJ, RQ, RK]"

definition TABLEAU_COLUMNS :: nat where
  "TABLEAU_COLUMNS = 7"

definition FOUNDATION_PILES :: nat where
  "FOUNDATION_PILES = 4"

text \<open>\<open>new Card(suit, rank)\<close> for each entry, with object identities from \<open>n\<close> on.\<close>

fun newCards :: "nat \<Rightarrow> (suit \<times> rank) list \<Rightarrow> card list" where
  "newCards n [] = []"
| "newCards n ((s, r) # xs) = Card n s r # newCards (Suc n) xs"

definition cardData :: "(suit \<times> rank) list" where
  "cardData = concat (map (\<lambda>s. map (\<lambda>r. (s, r)) RANKS) SUITS)"

definition createDeck :: "card list" where
  "createDeck = newCards 0 cardData"

text \<open>
  \<open>Deck.shuffle\<close> builds new cards in the order \<open>Utils.shuffle\<close> returns. That order is
  random in the source (a Fisher-Yates pass over \<open>Math.random\<close>); here it is the
  parameter \<open>shuffledData\<close>, any permutation of \<open>cardData\<close>.
\<close>

definition shuffle :: "(suit \<times> rank) list \<Rightarrow> card list" where
  "shuffle shuffledData = newCards (length createDeck) shuffledData"

definition dealCard :: "card list \<Rightarrow> card option \<times> card list" where
  "dealCard deck =
     (if length deck = 0 then (None, deck) else (Some (last deck), butlast deck))"

text \<open>
  The inner loop of \<open>dealForSolitaire\<close> for column \<open>col\<close>, with \<open>k\<close> rows left, so that
  \<open>row = col + 1 - k\<close>; the outer loop over the columns; the loop that empties the deck
  into the stock.
\<close>

fun dealColumn ::
  "nat \<Rightarrow> nat \<Rightarrow> game \<times> card list \<times> card list list \<Rightarrow> game \<times> card list \<times> card list list"
where
  "dealColumn col 0 st = st"
| "dealColumn col (Suc k) (g, deck, tableau) =
     (let row = col - k
      in case dealCard deck of
           (None, deck') \<Rightarrow> dealColumn col k (g, deck', tableau)
         | (Some c, deck') \<Rightarrow>
             dealColumn col k
               (flip g c (row = col), deck', tableau[col := tableau ! col @ [c]]))"

fun dealColumns ::
  "nat list \<Rightarrow> game \<times> card list \<times> card list list \<Rightarrow> game \<times> card list \<times> card list list"
where
  "dealColumns [] st = st"
| "dealColumns (col # cols) st = dealColumns cols (dealColumn col (col + 1) st)"

function dealStock :: "game \<times> card list \<times> card list \<Rightarrow> game \<times> card list \<times> card list" where
  "dealStock (g, deck, stock) =
     (if length deck > 0
      then (case dealCard deck of
              (None, deck') \<Rightarrow> dealStock (g, deck', stock)
            | (Some c, deck') \<Rightarrow> dealStock (flip g c False, deck', stock @ [c]))
      else (g, deck, stock))"
  by pat_completeness auto
termination
  by (relation "measure (\<lambda>(g, deck, stock). length deck)")
     (auto simp: dealCard_def split: if_splits)

definition dealForSolitaire :: "game \<Rightarrow> card list \<Rightarrow> (card list list \<times> card list) \<times> game" where
  "dealForSolitaire g deck =
     (let (g1, deck1, tableau) =
            dealColumns [0 ..< TABLEAU_COLUMNS] (g, deck, replicate 7 []);
          (g2, deck2, stock) = dealStock (g1, deck1, [])
      in ((tableau, stock), g2))"

text \<open>
  The controller (\<open>GameController\<close>) owns thirteen stacks. Their references, in the
  order of \<open>getAllStacks\<close>: the stock, the waste, the four foundations, the seven
  tableau columns.
\<close>

definition stockStack :: nat where
  "stockStack = 0"

definition wasteStack :: nat where
  "wasteStack = 1"

definition foundationStacks :: "nat list" where
  "foundationStacks = map (\<lambda>i. 2 + i) [0 ..< FOUNDATION_PILES]"

definition tableauStacks :: "nat list" where
  "tableauStacks = map (\<lambda>i. 6 + i) [0 ..< TABLEAU_COLUMNS]"

definition getAllStacks :: "nat list" where
  "getAllStacks = [stockStack, wasteStack] @ foundationStacks @ tableauStacks"

definition emptyBoard :: "gamestate \<Rightarrow> game" where
  "emptyBoard gs =
     \<lparr>stacks = (\<lambda>s. if s = 0 then \<lparr>stype = Stock, sindex = 0, cards = []\<rparr>
                     else if s = 1 then \<lparr>stype = Waste, sindex = 0, cards = []\<rparr>
                     else if s < 6 then \<lparr>stype = Foundation, sindex = s - 2, cards = []\<rparr>
                     else \<lparr>stype = Tableau, sindex = s - 6, cards = []\<rparr>),
      faceUp = (\<lambda>c. False),
      currentStack = (\<lambda>c. None),
      gameState = gs\<rparr>"

definition dealCards :: "game \<Rightarrow> card list list \<times> card list \<Rightarrow> game" where
  "dealCards g dealResult =
     (let g1 = fold (\<lambda>c h. addCard h stockStack c) (snd dealResult) g
      in fold (\<lambda>(columnIndex, columnCards) h.
                 fold (\<lambda>c k. addCard k (tableauStacks ! columnIndex) c) columnCards h)
              (enumerate 0 (fst dealResult)) g1)"

definition newGame :: "gamestate \<Rightarrow> (suit \<times> rank) list \<Rightarrow> game" where
  "newGame gs shuffledData =
     (let g0 = emptyBoard (reset gs);
          deck = shuffle shuffledData;
          (dealResult, g1) = dealForSolitaire g0 deck;
          g2 = dealCards g1 dealResult
      in g2\<lparr>gameState := startGame (gameState g2)\<rparr>)"

text \<open>The controller's \<open>undoLastMove\<close> and \<open>autoComplete\<close>.\<close>

definition controllerUndoLastMove :: "game \<Rightarrow> bool \<times> game" where
  "controllerUndoLastMove g =
     (if \<not> canUndo (gameState g) then (False, g)
      else (case undoLastMove (gameState g) of
              (None, gs') \<Rightarrow> (False, g\<lparr>gameState := gs'\<rparr>)
            | (Some lastMove, gs') \<Rightarrow>
                (True, snd (undoMove (g\<lparr>gameState := gs'\<rparr>) lastMove))))"

definition controllerAutoComplete :: "game \<Rightarrow> bool \<times> game" where
  "controllerAutoComplete g =
     (if \<not> autoComplete (settings (gameState g)) \<or> \<not> isPlaying (gameState g)
      then (False, g)
      else executeAutoComplete g getAllStacks)"

text \<open>All the cards on the board, as a multiset: a card held by two stacks counts twice.\<close>

definition boardCards :: "game \<Rightarrow> card multiset" where
  "boardCards g = mset (concat (map (\<lambda>s. cards (stacks g s)) getAllStacks))"


section \<open>The words of the specification\<close>

text \<open>
  A successive pair of a run, as the specification words it: both cards face up, the
  colours alternate, the rank descends by exactly one. A run is a list whose successive
  pairs all are such pairs (\<open>successively (validPair fu)\<close>).
\<close>

definition validPair :: "(card \<Rightarrow> bool) \<Rightarrow> card \<Rightarrow> card \<Rightarrow> bool" where
  "validPair fu a b = (fu a \<and> fu b \<and> isRed a \<noteq> isRed b \<and> getValue a = getValue b + 1)"

text \<open>The five kinds of move record.\<close>

definition fiveKinds :: "string list" where
  "fiveKinds =
     [''card_move'', ''multi_card_move'', ''stock_to_waste'', ''waste_to_stock'',
      ''card_flip'']"


section \<open>Example positions\<close>

text \<open>A game in progress with one record in its history and the undo setting off.\<close>

definition undoDisabledState :: gamestate where
  "undoDisabledState =
     newGameState\<lparr>isGameStarted := True, moves := 1,
                  moveHistory := [(moveOfType ''card_flip'')\<lparr>moveNumber := Some 1\<rparr>],
                  settings := defaultSettings\<lparr>allowUndo := False\<rparr>\<rparr>"

text \<open>A game in progress after one recorded move of the ace of hearts to a foundation.\<close>

definition undoExample :: game where
  "undoExample =
     (emptyBoard (newGameState\<lparr>isGameStarted := True, moves := 1,
                   moveHistory := [(moveOfType ''card_move'')\<lparr>moveNumber := Some 1\<rparr>]\<rparr>))
       \<lparr>stacks := (stacks (emptyBoard newGameState))
                    (2 := \<lparr>stype = Foundation, sindex = 0, cards = [Card 0 Hearts RA]\<rparr>),
        faceUp := (\<lambda>c. True)\<rparr>"

text \<open>A board with one face-down card in the stock and nothing else.\<close>

definition stockOnly :: game where
  "stockOnly =
     (emptyBoard (startGame newGameState))
       \<lparr>stacks := (stacks (emptyBoard newGameState))
                    (0 := \<lparr>stype = Stock, sindex = 0, cards = [Card 0 Clubs R5]\<rparr>)\<rparr>"

text \<open>
  A game in progress with empty stock and waste: the ten of spades on the first tableau
  column, the ten of hearts on the second, the nine of hearts on the third, all face up.
\<close>

definition tensAndNine :: game where
  "tensAndNine =
     (emptyBoard (startGame newGameState))
       \<lparr>stacks := (stacks (emptyBoard newGameState))
                    (6 := \<lparr>stype = Tableau, sindex = 0, cards = [Card 0 Spades R10]\<rparr>,
                     7 := \<lparr>stype = Tableau, sindex = 1, cards = [Card 1 Hearts R10]\<rparr>,
                     8 := \<lparr>stype = Tableau, sindex = 2, cards = [Card 2 Hearts R9]\<rparr>),
        faceUp := (\<lambda>c. True)\<rparr>"

text \<open>
  A tableau column: a face-down king under the run nine of hearts, eight of spades,
  seven of diamonds, and a seven of clubs on top of it.
\<close>

definition runColumn :: cardstack where
  "runColumn =
     \<lparr>stype = Tableau, sindex = 0,
      cards = [Card 0 Spades RK, Card 1 Hearts R9, Card 2 Spades R8, Card 3 Diamonds R7,
               Card 4 Clubs R7]\<rparr>"

definition runFaces :: "card \<Rightarrow> bool" where
  "runFaces c = (c \<noteq> Card 0 Spades RK)"

text \<open>
  Five cards in the stock, the king of hearts face up among them, and an empty waste;
  the draw count is the default, three.
\<close>

definition fiveInStock :: game where
  "fiveInStock =
     (emptyBoard (startGame newGameState))
       \<lparr>stacks := (stacks (emptyBoard newGameState))
                    (0 := \<lparr>stype = Stock, sindex = 0,
                          cards = [Card 0 Clubs R5, Card 1 Hearts RK, Card 2 Spades RA,
                                   Card 3 Diamonds R7, Card 4 Clubs RQ]\<rparr>),
        faceUp := (\<lambda>c. c = Card 1 Hearts RK)\<rparr>"

text \<open>
  The card data in the order of the deck's \<open>reverse\<close> test pattern (\<open>setTestPattern\<close>):
  the suits and the ranks both reversed, so that the ace of hearts is dealt first. It is
  one of the orders \<open>Utils.shuffle\<close> can return.
\<close>

definition reverseData :: "(suit \<times> rank) list" where
  "reverseData = concat (map (\<lambda>s. map (\<lambda>r. (s, r)) (rev RANKS)) (rev SUITS))"

text \<open>The position that \<open>newGame\<close> deals from that order, written out.\<close>

definition dealtReverse :: game where
  "dealtReverse =
     \<lparr>stacks =
        (stacks (emptyBoard newGameState))
        (0 := \<lparr>stype = Stock, sindex = 0,
               cards = [Card 75 Clubs R3, Card 74 Clubs R4, Card 73 Clubs R5,
                        Card 72 Clubs R6, Card 71 Clubs R7, Card 70 Clubs R8,
                        Card 69 Clubs R9, Card 68 Clubs R10, Card 67 Clubs RJ,
                        Card 66 Clubs RQ, Card 65 Clubs RK, Card 64 Spades RA,
                        Card 63 Spades R2, Card 62 Spades R3, Card 61 Spades R4,
                        Card 60 Spades R5, Card 59 Spades R6, Card 58 Spades R7,
                        Card 57 Spades R8, Card 56 Spades R9, Card 55 Spades R10,
                        Card 54 Spades RJ, Card 53 Spades RQ, Card 52 Spades RK]\<rparr>,
         6 := \<lparr>stype = Tableau, sindex = 0,
               cards = [Card 103 Hearts RA]\<rparr>,
         7 := \<lparr>stype = Tableau, sindex = 1,
               cards = [Card 102 Hearts R2, Card 101 Hearts R3]\<rparr>,
         8 := \<lparr>stype = Tableau, sindex = 2,
               cards = [Card 100 Hearts R4, Card 99 Hearts R5, Card 98 Hearts R6]\<rparr>,
         9 := \<lparr>stype = Tableau, sindex = 3,
               cards = [Card 97 Hearts R7, Card 96 Hearts R8, Card 95 Hearts R9,
                        Card 94 Hearts R10]\<rparr>,
         10 := \<lparr>stype = Tableau, sindex = 4,
               cards = [Card 93 Hearts RJ, Card 92 Hearts RQ, Card 91 Hearts RK,
                        Card 90 Diamonds RA, Card 89 Diamonds R2]\<rparr>,
         11 := \<lparr>stype = Tableau, sindex = 5,
               cards = [Card 88 Diamonds R3, Card 87 Diamonds R4, Card 86 Diamonds R5,
                        Card 85 Diamonds R6, Card 84 Diamonds R7, Card 83 Diamonds R8]\<rparr>,
         12 := \<lparr>stype = Tableau, sindex = 6,
               cards = [Card 82 Diamonds R9, Card 81 Diamonds R10, Card 80 Diamonds RJ,
                        Card 79 Diamonds RQ, Card 78 Diamonds RK, Card 77 Clubs RA,
                        Card 76 Clubs R2]\<rparr>),
      faceUp =
        (\<lambda>c. False)
        (Card 103 Hearts RA := True,
         Card 102 Hearts R2 := False,
         Card 101 Hearts R3 := True,
         Card 100 Hearts R4 := False,
         Card 99 Hearts R5 := False,
         Card 98 Hearts R6 := True,
         Card 97 Hearts R7 := False,
         Card 96 Hearts R8 := False,
         Card 95 Hearts R9 := False,
         Card 94 Hearts R10 := True,
         Card 93 Hearts RJ := False,
         Card 92 Hearts RQ := False,
         Card 91 Hearts RK := False,
         Card 90 Diamonds RA := False,
         Card 89 Diamonds R2 := True,
         Card 88 Diamonds R3 := False,
         Card 87 Diamonds R4 := False,
         Card 86 Diamonds R5 := False,
         Card 85 Diamonds R6 := False,
         Card 84 Diamonds R7 := False,
         Card 83 Diamonds R8 := True,
         Card 82 Diamonds R9 := False,
         Card 81 Diamonds R10 := False,
         Card 80 Diamonds RJ := False,
         Card 79 Diamonds RQ := False,
         Card 78 Diamonds RK := False,
         Card 77 Clubs RA := False,
         Card 76 Clubs R2 := True,
         Card 75 Clubs R3 := False,
         Card 74 Clubs R4 := False,
         Card 73 Clubs R5 := False,
         Card 72 Clubs R6 := False,
         Card 71 Clubs R7 := False,
         Card 70 Clubs R8 := False,
         Card 69 Clubs R9 := False,
         Card 68 Clubs R10 := False,
         Card 67 Clubs RJ := False,
         Card 66 Clubs RQ := False,
         Card 65 Clubs RK := False,
         Card 64 Spades RA := False,
         Card 63 Spades R2 := False,
         Card 62 Spades R3 := False,
         Card 61 Spades R4 := False,
         Card 60 Spades R5 := False,
         Card 59 Spades R6 := False,
         Card 58 Spades R7 := False,
         Card 57 Spades R8 := False,
         Card 56 Spades R9 := False,
         Card 55 Spades R10 := False,
         Card 54 Spades RJ := False,
         Card 53 Spades RQ := False,
         Card 52 Spades RK := False),
      currentStack =
        Map.empty
        (Card 75 Clubs R3 \<mapsto> 0,
         Card 74 Clubs R4 \<mapsto> 0,
         Card 73 Clubs R5 \<mapsto> 0,
         Card 72 Clubs R6 \<mapsto> 0,
         Card 71 Clubs R7 \<mapsto> 0,
         Card 70 Clubs R8 \<mapsto> 0,
         Card 69 Clubs R9 \<mapsto> 0,
         Card 68 Clubs R10 \<mapsto> 0,
         Card 67 Clubs RJ \<mapsto> 0,
         Card 66 Clubs RQ \<mapsto> 0,
         Card 65 Clubs RK \<mapsto> 0,
         Card 64 Spades RA \<mapsto> 0,
         Card 63 Spades R2 \<mapsto> 0,
         Card 62 Spades R3 \<mapsto> 0,
         Card 61 Spades R4 \<mapsto> 0,
         Card 60 Spades R5 \<mapsto> 0,
         Card 59 Spades R6 \<mapsto> 0,
         Card 58 Spades R7 \<mapsto> 0,
         Card 57 Spades R8 \<mapsto> 0,
         Card 56 Spades R9 \<mapsto> 0,
         Card 55 Spades R10 \<mapsto> 0,
         Card 54 Spades RJ \<mapsto> 0,
         Card 53 Spades RQ \<mapsto> 0,
         Card 52 Spades RK \<mapsto> 0,
         Card 103 Hearts RA \<mapsto> 6,
         Card 102 Hearts R2 \<mapsto> 7,
         Card 101 Hearts R3 \<mapsto> 7,
         Card 100 Hearts R4 \<mapsto> 8,
         Card 99 Hearts R5 \<mapsto> 8,
         Card 98 Hearts R6 \<mapsto> 8,
         Card 97 Hearts R7 \<mapsto> 9,
         Card 96 Hearts R8 \<mapsto> 9,
         Card 95 Hearts R9 \<mapsto> 9,
         Card 94 Hearts R10 \<mapsto> 9,
         Card 93 Hearts RJ \<mapsto> 10,
         Card 92 Hearts RQ \<mapsto> 10,
         Card 91 Hearts RK \<mapsto> 10,
         Card 90 Diamonds RA \<mapsto> 10,
         Card 89 Diamonds R2 \<mapsto> 10,
         Card 88 Diamonds R3 \<mapsto> 11,
         Card 87 Diamonds R4 \<mapsto> 11,
         Card 86 Diamonds R5 \<mapsto> 11,
         Card 85 Diamonds R6 \<mapsto> 11,
         Card 84 Diamonds R7 \<mapsto> 11,
         Card 83 Diamonds R8 \<mapsto> 11,
         Card 82 Diamonds R9 \<mapsto> 12,
         Card 81 Diamonds R10 \<mapsto> 12,
         Card 80 Diamonds RJ \<mapsto> 12,
         Card 79 Diamonds RQ \<mapsto> 12,
         Card 78 Diamonds RK \<mapsto> 12,
         Card 77 Clubs RA \<mapsto> 12,
         Card 76 Clubs R2 \<mapsto> 12),
      gameState = startGame (reset newGameState)\<rparr>"


text \<open>
  A paused game with the ace of hearts face up on the first tableau column and four
  empty foundations.
\<close>

definition pausedAce :: game where
  "pausedAce =
     (emptyBoard ((startGame newGameState)\<lparr>isPaused := True\<rparr>))
       \<lparr>stacks := (stacks (emptyBoard newGameState))
                    (6 := \<lparr>stype = Tableau, sindex = 0, cards = [Card 0 Hearts RA]\<rparr>),
        faceUp := (\<lambda>c. True)\<rparr>"

text \<open>
  A game in progress: the aces of spades, clubs and diamonds on three foundations, the
  fourth empty, and the two of hearts under the ace of hearts on the first tableau
  column, face up.
\<close>

definition twoOnAce :: game where
  "twoOnAce =
     (emptyBoard (startGame newGameState))
       \<lparr>stacks := (stacks (emptyBoard newGameState))
                    (3 := \<lparr>stype = Foundation, sindex = 1, cards = [Card 2 Spades RA]\<rparr>,
                     4 := \<lparr>stype = Foundation, sindex = 2, cards = [Card 3 Clubs RA]\<rparr>,
                     5 := \<lparr>stype = Foundation, sindex = 3, cards = [Card 4 Diamonds RA]\<rparr>,
                     6 := \<lparr>stype = Tableau, sindex = 0,
                          cards = [Card 1 Hearts R2, Card 0 Hearts RA]\<rparr>),
        faceUp := (\<lambda>c. True)\<rparr>"


section \<open>Callers' loops\<close>

text \<open>
  Drawing until the stock is empty: the caller clicks the stock while it holds a card,
  at most \<open>k\<close> times.
\<close>

fun drawUntilEmpty :: "nat \<Rightarrow> game \<Rightarrow> nat \<Rightarrow> nat \<Rightarrow> game" where
  "drawUntilEmpty 0 g st wa = g"
| "drawUntilEmpty (Suc k) g st wa =
     (if isEmpty (stacks g st) then g
      else drawUntilEmpty k (snd (drawFromStock g st wa)) st wa)"

text \<open>Three successive draw calls: the three lists returned, and the game after them.\<close>

definition threeDraws :: "game \<Rightarrow> nat \<Rightarrow> nat \<Rightarrow> card list list \<times> game" where
  "threeDraws g st wa =
     (let (d1, g1) = drawFromStock g st wa;
          (d2, g2) = drawFromStock g1 st wa;
          (d3, g3) = drawFromStock g2 st wa
      in ([d1, d2, d3], g3))"

text \<open>
  The results of the calls of \<open>executeSingleCardMove\<close> that a sweep of
  \<open>executeAutoComplete\<close> makes over its list, in order. The source drops them; a move
  was made exactly when one of them is \<open>true\<close>.
\<close>

fun sweepResults :: "game \<Rightarrow> hint list \<Rightarrow> bool list" where
  "sweepResults g [] = []"
| "sweepResults g (h # hs) =
     fst (executeSingleCardMove g (hcard h) (hfromStack h) (htoStack h))
     # sweepResults (snd (executeSingleCardMove g (hcard h) (hfromStack h) (htoStack h))) hs"


section \<open>Facts about the list primitives\<close>

lemma getTopCard_last:
  "getTopCard s = (if cards s = [] then None else Some (last (cards s)))"
  by (simp add: getTopCard_def last_conv_nth)

lemma indexOf_notin: "x \<notin> set xs \<Longrightarrow> indexOf xs x = - 1"
  by (induction xs) auto

lemma indexOf_in: "x \<in> set xs \<Longrightarrow> 0 \<le> indexOf xs x \<and> indexOf xs x < int (length xs)"
  by (induction xs) (auto simp: Let_def)

lemma indexOf_neg_iff: "indexOf xs x = - 1 \<longleftrightarrow> x \<notin> set xs"
  using indexOf_in [of x xs] indexOf_notin [of x xs] by auto

lemma splice1_indexOf: "x \<in> set xs \<Longrightarrow> splice1 xs (indexOf xs x) = remove1 x xs"
proof (induction xs)
  case Nil
  then show ?case by simp
next
  case (Cons y ys)
  show ?case
  proof (cases "y = x")
    case True
    then show ?thesis by (simp add: splice1_def)
  next
    case False
    with Cons.prems have mem: "x \<in> set ys" by simp
    then have nn: "indexOf ys x \<noteq> - 1" and ge: "0 \<le> indexOf ys x"
      using indexOf_in [OF mem] by auto
    have "nat (indexOf ys x + 1) = Suc (nat (indexOf ys x))"
      using ge by simp
    with False nn Cons.IH [OF mem] show ?thesis
      by (simp add: splice1_def Let_def)
  qed
qed


section \<open>Acceptance rules\<close>

text \<open>
  C2. The destination-acceptance check \<open>canAcceptCard\<close> is true exactly per the table:
  on a foundation, an empty stack takes rank 1 and a non-empty one the same suit with
  the top's rank plus one; on a tableau, an empty stack takes rank 13 and a non-empty
  one needs a face-up top, the other colour and the top's rank minus one; a waste or a
  stock stack takes nothing. The engine's own checks \<open>canMoveToFoundation\<close> and
  \<open>canMoveToTableau\<close> decide the same on a stack of the store. The top card is the
  last element of the array.
\<close>

theorem canAcceptCard_table:
  "(canAcceptCard fu d c \<longleftrightarrow>
      (stype d = Foundation \<and>
         (if cards d = [] then getValue c = 1
          else suit c = suit (last (cards d)) \<and> getValue c = getValue (last (cards d)) + 1))
      \<or> (stype d = Tableau \<and>
         (if cards d = [] then getValue c = 13
          else fu (last (cards d)) \<and> isRed c \<noteq> isRed (last (cards d))
               \<and> getValue c = getValue (last (cards d)) - 1)))
   \<and> (stype d = Waste \<or> stype d = Stock \<longrightarrow> \<not> canAcceptCard fu d c)
   \<and> canMoveToFoundation g c t = canPlaceOnFoundation (stacks g t) c
   \<and> canMoveToTableau g c t = canPlaceOnTableau (faceUp g) (stacks g t) c"
  (is "?table \<and> ?never \<and> ?foundation \<and> ?tableau")
proof -
  have a: "canPlaceOnFoundation d c =
             (if cards d = [] then getValue c = 1
              else suit c = suit (last (cards d))
                   \<and> getValue c = getValue (last (cards d)) + 1)"
    by (simp add: canPlaceOnFoundation_def isEmpty_def getTopCard_last Let_def)
  have b: "canPlaceOnTableau fu d c =
             (if cards d = [] then getValue c = 13
              else fu (last (cards d)) \<and> isRed c \<noteq> isRed (last (cards d))
                   \<and> getValue c = getValue (last (cards d)) - 1)"
    by (simp add: canPlaceOnTableau_def isEmpty_def getTopCard_last)
  have c: ?foundation
    by (simp add: canMoveToFoundation_def canPlaceOnFoundation_def isEmpty_def
        getTopCard_def Let_def)
  have d: ?tableau
    by (simp add: canMoveToTableau_def canPlaceOnTableau_def isEmpty_def
        getTopCard_def Let_def)
  have e: "canAcceptCard fu d c \<longleftrightarrow>
             (stype d = Foundation \<and> canPlaceOnFoundation d c)
             \<or> (stype d = Tableau \<and> canPlaceOnTableau fu d c)"
    by (cases "stype d") (simp_all add: canAcceptCard_def)
  have f: ?never
    by (auto simp: canAcceptCard_def)
  have t: ?table
    unfolding e a b by (rule refl)
  from t f c d show ?thesis
    by (intro conjI)
qed

theorem canAcceptCard_table_witness:
  "canAcceptCard (\<lambda>c. True) \<lparr>stype = Tableau, sindex = 0, cards = [Card 0 Spades R10]\<rparr>
     (Card 1 Hearts R9)
   \<and> \<not> canAcceptCard (\<lambda>c. True) \<lparr>stype = Tableau, sindex = 0, cards = [Card 0 Hearts R10]\<rparr>
         (Card 1 Hearts R9)
   \<and> \<not> canAcceptCard (\<lambda>c. False) \<lparr>stype = Tableau, sindex = 0, cards = [Card 0 Spades R10]\<rparr>
         (Card 1 Hearts R9)
   \<and> canAcceptCard (\<lambda>c. True) \<lparr>stype = Foundation, sindex = 0, cards = []\<rparr>
         (Card 1 Hearts RA)
   \<and> \<not> canAcceptCard (\<lambda>c. True) \<lparr>stype = Waste, sindex = 0, cards = []\<rparr>
         (Card 1 Hearts RA)"
  using canAcceptCard_table
          [of "\<lambda>c. True" "\<lparr>stype = Tableau, sindex = 0, cards = [Card 0 Spades R10]\<rparr>"
              "Card 1 Hearts R9"]
        canAcceptCard_table
          [of "\<lambda>c. True" "\<lparr>stype = Tableau, sindex = 0, cards = [Card 0 Hearts R10]\<rparr>"
              "Card 1 Hearts R9"]
        canAcceptCard_table
          [of "\<lambda>c. False" "\<lparr>stype = Tableau, sindex = 0, cards = [Card 0 Spades R10]\<rparr>"
              "Card 1 Hearts R9"]
        canAcceptCard_table
          [of "\<lambda>c. True" "\<lparr>stype = Foundation, sindex = 0, cards = []\<rparr>"
              "Card 1 Hearts RA"]
        canAcceptCard_table
          [of "\<lambda>c. True" "\<lparr>stype = Waste, sindex = 0, cards = []\<rparr>"
              "Card 1 Hearts RA"]
  by (simp add: getValue_def isRed_def)


section \<open>Block detection\<close>

lemma upt4: "[0 ..< 4] = [0, 1, 2, 3]"
  by (simp add: upt_rec)

lemma upt7: "[0 ..< 7] = [0, 1, 2, 3, 4, 5, 6]"
  by (simp add: upt_rec)

lemma getAllStacks_eq: "getAllStacks = [0, 1, 2, 3, 4, 5, 6, 7, 8, 9, 10, 11, 12]"
  by (simp add: getAllStacks_def stockStack_def wasteStack_def foundationStacks_def
      tableauStacks_def FOUNDATION_PILES_def TABLEAU_COLUMNS_def upt4 upt7)

text \<open>
  C3. \<open>isGameBlocked\<close> is true if and only if \<open>findHints\<close> returns the empty list and the
  stock and the waste are empty, where the stock and the waste are the first stacks of
  their type in the collection (what \<open>Array.find\<close> returns), and a type that the
  collection lacks has nothing to draw. On the controller's thirteen stacks this reads:
  blocked iff no hints, empty stock, empty waste; in particular never blocked while the
  stock or the waste holds a card, whatever the hints.
\<close>

theorem isGameBlocked_iff:
  "(isGameBlocked g allStacks \<longleftrightarrow>
      findHints g allStacks = []
      \<and> (\<forall>s. find (\<lambda>s. stype (stacks g s) = Stock) allStacks = Some s \<longrightarrow> cards (stacks g s) = [])
      \<and> (\<forall>s. find (\<lambda>s. stype (stacks g s) = Waste) allStacks = Some s \<longrightarrow> cards (stacks g s) = []))
   \<and> (stype (stacks g stockStack) = Stock \<and> stype (stacks g wasteStack) = Waste \<longrightarrow>
        (isGameBlocked g getAllStacks \<longleftrightarrow>
           findHints g getAllStacks = [] \<and> cards (stacks g stockStack) = []
           \<and> cards (stacks g wasteStack) = [])
        \<and> (cards (stacks g stockStack) \<noteq> [] \<or> cards (stacks g wasteStack) \<noteq> [] \<longrightarrow>
             \<not> isGameBlocked g getAllStacks))"
  (is "?general \<and> ?board")
proof -
  have a: ?general
    by (auto simp: isGameBlocked_def Let_def isEmpty_def split: option.splits)
  have b: ?board
  proof (intro impI, elim conjE)
    assume st: "stype (stacks g stockStack) = Stock" and wa: "stype (stacks g wasteStack) = Waste"
    have fs: "find (\<lambda>s. stype (stacks g s) = Stock) getAllStacks = Some stockStack"
      using st by (simp add: getAllStacks_def)
    have fw: "find (\<lambda>s. stype (stacks g s) = Waste) getAllStacks = Some wasteStack"
      using st wa by (simp add: getAllStacks_def)
    show "(isGameBlocked g getAllStacks \<longleftrightarrow>
           findHints g getAllStacks = [] \<and> cards (stacks g stockStack) = []
           \<and> cards (stacks g wasteStack) = [])
        \<and> (cards (stacks g stockStack) \<noteq> [] \<or> cards (stacks g wasteStack) \<noteq> [] \<longrightarrow>
             \<not> isGameBlocked g getAllStacks)"
      by (auto simp: isGameBlocked_def Let_def isEmpty_def fs fw)
  qed
  from a b show ?thesis by (intro conjI)
qed

theorem isGameBlocked_iff_witness:
  "stype (stacks stockOnly stockStack) = Stock \<and> stype (stacks stockOnly wasteStack) = Waste
   \<and> findHints stockOnly getAllStacks = []
   \<and> cards (stacks stockOnly stockStack) \<noteq> []
   \<and> \<not> isGameBlocked stockOnly getAllStacks"
  using isGameBlocked_iff [of stockOnly getAllStacks]
  by (simp add: stockOnly_def emptyBoard_def stockStack_def wasteStack_def getAllStacks_eq
      findHints_def findAutoCompletableCards_def findCardsToFlip_def getTopCard_def isEmpty_def
      Let_def)


section \<open>Run extraction\<close>

lemma validSequenceLoop_prefix: "prefix (validSequenceLoop fu p xs) xs"
  by (induction xs arbitrary: p) auto

lemma validSequenceLoop_run: "successively (validPair fu) (p # validSequenceLoop fu p xs)"
  by (induction xs arbitrary: p) (auto simp: validPair_def)

lemma validSequenceLoop_longest:
  "prefix q xs \<Longrightarrow> successively (validPair fu) (p # q) \<Longrightarrow> prefix q (validSequenceLoop fu p xs)"
proof (induction xs arbitrary: p q)
  case Nil
  then show ?case by simp
next
  case (Cons x xs)
  show ?case
  proof (cases q)
    case Nil
    then show ?thesis by simp
  next
    case (Cons y ys)
    with Cons.prems have yx: "y = x" and pre: "prefix ys xs" by auto
    from Cons.prems Cons yx have ok: "validPair fu p x"
      and rest: "successively (validPair fu) (x # ys)"
      by auto
    from Cons.IH [OF pre rest] ok Cons yx show ?thesis by (auto simp: validPair_def)
  qed
qed

text \<open>
  What \<open>getCardsFromIndex\<close> does return. On a tableau stack and an index in range: the
  card at the index, whatever its face, followed by the cards after it for as long as
  each successive pair is face up, alternates in colour and descends by one; that is the
  longest prefix of the tail all of whose successive pairs are such pairs. On a stack of
  another type the whole tail. For an index out of range the empty list.
\<close>

lemma getCardsFromIndex_longest_pairs:
  "(stype s = Tableau \<and> 0 \<le> i \<and> i < int (length (cards s)) \<longrightarrow>
      getCardsFromIndex fu s i \<noteq> []
      \<and> prefix (getCardsFromIndex fu s i) (drop (nat i) (cards s))
      \<and> successively (validPair fu) (getCardsFromIndex fu s i)
      \<and> (\<forall>q. prefix q (drop (nat i) (cards s)) \<and> successively (validPair fu) q \<longrightarrow>
             prefix q (getCardsFromIndex fu s i)))
   \<and> (stype s \<noteq> Tableau \<and> 0 \<le> i \<and> i < int (length (cards s)) \<longrightarrow>
      getCardsFromIndex fu s i = drop (nat i) (cards s))
   \<and> (i < 0 \<or> int (length (cards s)) \<le> i \<longrightarrow> getCardsFromIndex fu s i = [])"
  (is "?tableau \<and> ?other \<and> ?range")
proof -
  have a: ?tableau
  proof (intro impI, elim conjE)
    assume t: "stype s = Tableau" and lo: "0 \<le> i" and hi: "i < int (length (cards s))"
    from lo hi have "drop (nat i) (cards s) \<noteq> []" by simp
    then obtain c cs where d: "drop (nat i) (cards s) = c # cs"
      by (cases "drop (nat i) (cards s)") auto
    have r: "getCardsFromIndex fu s i = c # validSequenceLoop fu c cs"
      using t lo hi d by (simp add: getCardsFromIndex_def Let_def)
    have m: "prefix q (c # validSequenceLoop fu c cs)"
      if "prefix q (c # cs)" "successively (validPair fu) q" for q
    proof (cases q)
      case Nil
      then show ?thesis by simp
    next
      case (Cons y ys)
      with that validSequenceLoop_longest [of ys cs fu c] show ?thesis by auto
    qed
    show "getCardsFromIndex fu s i \<noteq> []
      \<and> prefix (getCardsFromIndex fu s i) (drop (nat i) (cards s))
      \<and> successively (validPair fu) (getCardsFromIndex fu s i)
      \<and> (\<forall>q. prefix q (drop (nat i) (cards s)) \<and> successively (validPair fu) q \<longrightarrow>
             prefix q (getCardsFromIndex fu s i))"
      unfolding r d
      using validSequenceLoop_prefix [of fu c cs] validSequenceLoop_run [of fu c cs] m
      by auto
  qed
  have b: ?other
    by (simp add: getCardsFromIndex_def Let_def)
  have c: ?range
    by (auto simp: getCardsFromIndex_def)
  from a b c show ?thesis by (intro conjI)
qed

lemma validPair_run_faces:
  "successively (validPair fu) (c # cs) \<Longrightarrow> fu c \<Longrightarrow> \<forall>x \<in> set (c # cs). fu x"
proof (induction cs arbitrary: c)
  case Nil
  then show ?case by simp
next
  case (Cons d ds)
  from Cons.prems(1) have p: "validPair fu c d" and s: "successively (validPair fu) (d # ds)"
    by simp_all
  from p have "fu d"
    by (simp add: validPair_def)
  from Cons.IH [OF s this] Cons.prems(2) show ?case
    by simp
qed

text \<open>
  When the card at the index is face up, every card returned is face up: the result is
  then the run the specification describes.
\<close>

lemma getCardsFromIndex_face_up_start:
  assumes "stype s = Tableau" and "0 \<le> i" and "i < int (length (cards s))"
    and "fu (cards s ! nat i)"
  shows "\<forall>x \<in> set (getCardsFromIndex fu s i). fu x"
proof -
  from assms(2,3) have lt: "nat i < length (cards s)" by simp
  then have d: "drop (nat i) (cards s) = cards s ! nat i # drop (Suc (nat i)) (cards s)"
    by (rule Cons_nth_drop_Suc [symmetric])
  let ?c = "cards s ! nat i" and ?cs = "drop (Suc (nat i)) (cards s)"
  have r: "getCardsFromIndex fu s i = ?c # validSequenceLoop fu ?c ?cs"
    using assms(1-3) d by (simp add: getCardsFromIndex_def Let_def)
  have "successively (validPair fu) (?c # validSequenceLoop fu ?c ?cs)"
    by (rule validSequenceLoop_run)
  from validPair_run_faces [of fu ?c "validSequenceLoop fu ?c ?cs", OF this assms(4)]
  show ?thesis
    unfolding r .
qed

text \<open>
  C4, at a failing input. The claim has the run stop at the first face-down card, so a
  run that starts on a face-down card is empty. On the tableau column \<open>runColumn\<close>, whose
  bottom card, the king of spades, is face down, \<open>getCardsFromIndex\<close> at index 0 returns
  that face-down king; on a column that holds one face-down card it returns that card.
  The loop of \<open>getValidSequence\<close> checks the faces of each pair (its comment: all cards
  must be face up), but \<open>cards[0]\<close> enters the result unchecked and a list of one card
  is returned as it is. From index 1, a face-up card, the result is the run of the
  nine, the eight and the seven.
\<close>

theorem getCardsFromIndex_face_down_start:
  "stype runColumn = Tableau
   \<and> cards runColumn ! 0 = Card 0 Spades RK
   \<and> \<not> runFaces (Card 0 Spades RK)
   \<and> getCardsFromIndex runFaces runColumn 0 = [Card 0 Spades RK]
   \<and> getCardsFromIndex (\<lambda>c. False)
        \<lparr>stype = Tableau, sindex = 0, cards = [Card 0 Spades RK]\<rparr> 0
       = [Card 0 Spades RK]
   \<and> getCardsFromIndex runFaces runColumn 1
       = [Card 1 Hearts R9, Card 2 Spades R8, Card 3 Diamonds R7]"
  by (simp add: runColumn_def runFaces_def getCardsFromIndex_def isRed_def getValue_def)


section \<open>Failure is a silent no-op\<close>

lemma sequentialLoop_faces: "sequentialLoop fu p xs \<Longrightarrow> \<forall>x \<in> set xs. fu x"
  by (induction xs arbitrary: p) (auto split: if_splits)

lemma validateMultiCardMove_faces:
  assumes v: "validateMultiCardMove g cs fromStack toStack"
  shows "\<forall>x \<in> set cs. faceUp g x"
proof -
  from v obtain x xs where cs: "cs = x # xs"
    by (cases cs) (auto simp: validateMultiCardMove_def)
  from v cs have s: "sequentialLoop (faceUp g) x xs" and h: "validateMove g x fromStack toStack"
    by (auto simp: validateMultiCardMove_def split: if_splits)
  from h have "faceUp g x"
    by (auto simp: validateMove_def split: if_splits)
  with sequentialLoop_faces [OF s] cs show ?thesis
    by auto
qed

text \<open>
  C8. Every operation of the model is a total function: none throws. A single-card move
  that \<open>validateMove\<close> rejects, and a multi-card move that \<open>validateMultiCardMove\<close>
  rejects, returns \<open>false\<close> and returns the whole game as it was: every stack, every
  face, the move count and the history. Rejected are, among the rest, every move while
  the game is not playing, every move of a face-down card (for several cards: of a list
  that holds one), and every move onto the waste or the stock. A draw while the stock and
  the waste are both empty returns the empty list and the game as it was.
\<close>

theorem illegal_move_is_noop:
  "(\<not> validateMove g c fromStack toStack \<longrightarrow>
      executeSingleCardMove g c fromStack toStack = (False, g))
   \<and> (\<not> isPlaying (gameState g) \<or> \<not> faceUp g c
       \<or> stype (stacks g toStack) = Waste \<or> stype (stacks g toStack) = Stock \<longrightarrow>
      \<not> validateMove g c fromStack toStack)
   \<and> (\<not> validateMultiCardMove g cs fromStack toStack \<longrightarrow>
      executeMultiCardMove g cs fromStack toStack = (False, g))
   \<and> (\<not> isPlaying (gameState g) \<or> (\<exists>x \<in> set cs. \<not> faceUp g x)
       \<or> stype (stacks g toStack) = Waste \<or> stype (stacks g toStack) = Stock
       \<or> cs = [] \<or> stype (stacks g fromStack) \<noteq> Tableau \<longrightarrow>
      \<not> validateMultiCardMove g cs fromStack toStack)
   \<and> (isEmpty (stacks g st) \<and> isEmpty (stacks g wa) \<longrightarrow> drawFromStock g st wa = ([], g))"
  (is "?single \<and> ?singleCases \<and> ?multi \<and> ?multiCases \<and> ?draw")
proof -
  have a: ?single
    by (simp add: executeSingleCardMove_def)
  have b: ?singleCases
    by (auto simp: validateMove_def)
  have c: ?multi
    by (simp add: executeMultiCardMove_def)
  have d: ?multiCases
  proof (intro impI notI)
    assume h: "\<not> isPlaying (gameState g) \<or> (\<exists>x \<in> set cs. \<not> faceUp g x)
       \<or> stype (stacks g toStack) = Waste \<or> stype (stacks g toStack) = Stock
       \<or> cs = [] \<or> stype (stacks g fromStack) \<noteq> Tableau"
      and v: "validateMultiCardMove g cs fromStack toStack"
    from v have "validateMove g (cs ! 0) fromStack toStack" "cs \<noteq> []"
      "stype (stacks g fromStack) = Tableau"
      by (auto simp: validateMultiCardMove_def split: if_splits)
    with validateMultiCardMove_faces [OF v] h show False
      unfolding validateMove_def by (auto split: if_splits)
  qed
  have e: ?draw
    by (simp add: drawFromStock_def recycleWasteToStock_def)
  from a b c d e show ?thesis by (intro conjI)
qed

theorem illegal_move_is_noop_witness:
  "\<not> validateMove tensAndNine (Card 2 Hearts R9) 8 7
   \<and> executeSingleCardMove tensAndNine (Card 2 Hearts R9) 8 7 = (False, tensAndNine)
   \<and> \<not> validateMultiCardMove tensAndNine [Card 2 Hearts R9] 8 1
   \<and> executeMultiCardMove tensAndNine [Card 2 Hearts R9] 8 1 = (False, tensAndNine)
   \<and> isEmpty (stacks tensAndNine 0) \<and> isEmpty (stacks tensAndNine 1)
   \<and> drawFromStock tensAndNine 0 1 = ([], tensAndNine)"
proof -
  have v: "\<not> validateMove tensAndNine (Card 2 Hearts R9) 8 7"
    by (simp add: tensAndNine_def emptyBoard_def validateMove_def canMoveToTableau_def
        isRed_def getValue_def Let_def)
  have w: "stype (stacks tensAndNine 1) = Waste"
    by (simp add: tensAndNine_def emptyBoard_def)
  have e: "isEmpty (stacks tensAndNine 0) \<and> isEmpty (stacks tensAndNine 1)"
    by (simp add: tensAndNine_def emptyBoard_def isEmpty_def)
  from v e w
    illegal_move_is_noop [of tensAndNine "Card 2 Hearts R9" 8 7 "[Card 2 Hearts R9]" 0 1]
    illegal_move_is_noop [of tensAndNine "Card 2 Hearts R9" 8 1 "[Card 2 Hearts R9]" 0 1]
  show ?thesis by blast
qed


section \<open>Undo\<close>

text \<open>
  C9. For a record of any of the five kinds \<open>undoMove\<close> returns \<open>true\<close> and the game as
  it was: no stack and no face changes, the reversal handlers rebuild nothing.
  \<open>GameState.undoLastMove\<close> (with the setting on) pops the most recent record, returns
  it and takes one off the move counter, not below zero. The controller's undo, which
  runs the two, changes the history and the counter and nothing else.
\<close>

theorem undoMove_metadata_only:
  "(mtype md \<in> set fiveKinds \<longrightarrow> undoMove g md = (True, g))
   \<and> (allowUndo (settings gs) \<and> moveHistory gs = h @ [md] \<longrightarrow>
        undoLastMove gs = (Some md, gs\<lparr>moveHistory := h, moves := max 0 (moves gs - 1)\<rparr>))
   \<and> (canUndo (gameState g) \<longrightarrow>
        fst (controllerUndoLastMove g)
        \<and> stacks (snd (controllerUndoLastMove g)) = stacks g
        \<and> faceUp (snd (controllerUndoLastMove g)) = faceUp g
        \<and> currentStack (snd (controllerUndoLastMove g)) = currentStack g
        \<and> gameState (snd (controllerUndoLastMove g)) =
            (gameState g)\<lparr>moveHistory := butlast (moveHistory (gameState g)),
                          moves := max 0 (moves (gameState g) - 1)\<rparr>)"
  (is "?handlers \<and> ?pop \<and> ?controller")
proof -
  have a: ?handlers
    by (auto simp: fiveKinds_def undoMove_def undoCardMove_def undoMultiCardMove_def
        undoStockToWaste_def undoWasteToStock_def undoCardFlip_def)
  have b: ?pop
    by (simp add: undoLastMove_def Let_def)
  have u: "snd (undoMove k m) = k" for k m
    by (simp add: undoMove_def undoCardMove_def undoMultiCardMove_def
        undoStockToWaste_def undoWasteToStock_def undoCardFlip_def)
  have c: ?controller
    by (simp add: controllerUndoLastMove_def canUndo_def undoLastMove_def Let_def u)
  from a b c show ?thesis by (intro conjI)
qed

theorem undoMove_metadata_only_witness:
  "canUndo (gameState undoExample)
   \<and> mtype (last (moveHistory (gameState undoExample))) \<in> set fiveKinds
   \<and> undoMove undoExample (last (moveHistory (gameState undoExample))) = (True, undoExample)
   \<and> fst (controllerUndoLastMove undoExample)
   \<and> cards (stacks (snd (controllerUndoLastMove undoExample)) 2) = [Card 0 Hearts RA]
   \<and> moveHistory (gameState (snd (controllerUndoLastMove undoExample))) = []
   \<and> moves (gameState (snd (controllerUndoLastMove undoExample))) = 0"
  using undoMove_metadata_only
          [of "last (moveHistory (gameState undoExample))" undoExample
              "gameState undoExample" "[]"]
  by (simp add: undoExample_def emptyBoard_def newGameState_def defaultSettings_def
      canUndo_def fiveKinds_def moveOfType_def)

text \<open>
  C10. \<open>GameState.undoLastMove\<close> returns a record if and only if the \<open>allowUndo\<close>
  setting is on and the history is not empty; it is then the last record, and the
  history loses it. With the setting off it returns nothing and changes nothing,
  whatever the history and the state of the game. \<open>canUndo\<close> asks in addition that the
  game is started and not completed.
\<close>

theorem undoLastMove_gating:
  "(fst (undoLastMove gs) \<noteq> None \<longleftrightarrow> allowUndo (settings gs) \<and> moveHistory gs \<noteq> [])
   \<and> (allowUndo (settings gs) \<and> moveHistory gs \<noteq> [] \<longrightarrow>
        fst (undoLastMove gs) = Some (last (moveHistory gs))
        \<and> moveHistory (snd (undoLastMove gs)) = butlast (moveHistory gs))
   \<and> (\<not> allowUndo (settings gs) \<longrightarrow> undoLastMove gs = (None, gs))
   \<and> (canUndo gs \<longleftrightarrow>
        fst (undoLastMove gs) \<noteq> None \<and> isGameStarted gs \<and> \<not> isGameCompleted gs)"
  by (auto simp: undoLastMove_def canUndo_def Let_def)

theorem undoLastMove_gating_witness:
  "moveHistory undoDisabledState \<noteq> [] \<and> isPlaying undoDisabledState
   \<and> \<not> allowUndo (settings undoDisabledState)
   \<and> undoLastMove undoDisabledState = (None, undoDisabledState)
   \<and> \<not> canUndo undoDisabledState"
  using undoLastMove_gating [of undoDisabledState]
  by (simp add: undoDisabledState_def newGameState_def defaultSettings_def isPlaying_def)


section \<open>The writing methods, one step at a time\<close>

lemma cards_removeCard:
  "cards (stacks (removeCard g s c) s') =
     (if s' = s then remove1 c (cards (stacks g s)) else cards (stacks g s'))"
proof (cases "c \<in> set (cards (stacks g s))")
  case True
  then show ?thesis
    by (simp add: removeCard_def Let_def indexOf_neg_iff splice1_indexOf)
next
  case False
  then show ?thesis
    by (simp add: removeCard_def Let_def indexOf_neg_iff remove1_idem)
qed

lemma cards_addCard:
  "cards (stacks (addCard g s c) s') =
     (if s' = s then cards (stacks g s) @ [c] else cards (stacks g s'))"
  by (simp add: addCard_def)

lemma cards_flip: "cards (stacks (flip g c b) s) = cards (stacks g s)"
  by (simp add: flip_def)

lemma stacks_flip: "stacks (flip g c b) = stacks g"
  by (simp add: flip_def)

lemma faceUp_removeCard: "faceUp (removeCard g s c) = faceUp g"
  by (simp add: removeCard_def Let_def)

lemma faceUp_addCard: "faceUp (addCard g s c) = faceUp g"
  by (simp add: addCard_def)

lemma faceUp_flip: "faceUp (flip g c b) = (faceUp g)(c := b)"
  by (simp add: flip_def)

lemma gameState_removeCard: "gameState (removeCard g s c) = gameState g"
  by (simp add: removeCard_def Let_def)

lemma gameState_addCard: "gameState (addCard g s c) = gameState g"
  by (simp add: addCard_def)

lemma gameState_flip: "gameState (flip g c b) = gameState g"
  by (simp add: flip_def)

lemma stype_removeCard: "stype (stacks (removeCard g s c) s') = stype (stacks g s')"
  by (simp add: removeCard_def Let_def)

lemma stype_addCard: "stype (stacks (addCard g s c) s') = stype (stacks g s')"
  by (simp add: addCard_def)

lemmas step_simps =
  cards_removeCard cards_addCard cards_flip stacks_flip faceUp_removeCard faceUp_addCard
  faceUp_flip gameState_removeCard gameState_addCard gameState_flip stype_removeCard
  stype_addCard


section \<open>Draw and recycle\<close>

lemma drawLoop_effect:
  assumes "stockStack' \<noteq> wasteStack'"
  shows "cards (stacks g stockStack') = xs @ ys \<Longrightarrow> distinct (xs @ ys) \<Longrightarrow>
     cards (stacks (fst (drawLoop (length ys) stockStack' wasteStack' (g, acc))) stockStack') = xs
     \<and> cards (stacks (fst (drawLoop (length ys) stockStack' wasteStack' (g, acc))) wasteStack')
          = cards (stacks g wasteStack') @ rev ys
     \<and> snd (drawLoop (length ys) stockStack' wasteStack' (g, acc)) = acc @ rev ys
     \<and> faceUp (fst (drawLoop (length ys) stockStack' wasteStack' (g, acc)))
          = (\<lambda>c. if c \<in> set ys then True else faceUp g c)
     \<and> gameState (fst (drawLoop (length ys) stockStack' wasteStack' (g, acc))) = gameState g"
proof (induction ys arbitrary: g acc rule: rev_induct)
  case Nil
  then show ?case by simp
next
  case (snoc y ys)
  let ?g1 = "addCard (flip (removeCard g stockStack' y) y True) wasteStack' y"
  have top: "getTopCard (stacks g stockStack') = Some y"
    using snoc.prems by (simp add: getTopCard_last)
  have unfold: "drawLoop (length (ys @ [y])) stockStack' wasteStack' (g, acc)
                  = drawLoop (length ys) stockStack' wasteStack' (?g1, acc @ [y])"
    using top by simp
  have notin: "y \<notin> set xs" "y \<notin> set ys"
    using snoc.prems by auto
  have c1: "cards (stacks ?g1 stockStack') = xs @ ys"
    using assms snoc.prems notin by (simp add: step_simps remove1_append)
  have d1: "distinct (xs @ ys)"
    using snoc.prems by simp
  have w1: "cards (stacks ?g1 wasteStack') = cards (stacks g wasteStack') @ [y]"
    using assms by (simp add: step_simps)
  have f1: "faceUp ?g1 = (faceUp g)(y := True)"
    by (simp add: step_simps)
  have s1: "gameState ?g1 = gameState g"
    by (simp add: step_simps)
  from snoc.IH [OF c1 d1, of "acc @ [y]"] show ?case
    unfolding unfold w1 f1 s1 by (auto simp: fun_eq_iff)
qed


lemma settings_recordMove: "settings (recordMove gs md) = settings gs"
  by (simp add: recordMove_def Let_def)

lemma drawFromStock_draw:
  assumes ne: "stockStack' \<noteq> wasteStack'"
    and cs: "cards (stacks g stockStack') = xs @ ys"
    and di: "distinct (xs @ ys)"
    and ys: "ys \<noteq> []"
    and n: "int (length ys) = min (drawCount (settings (gameState g))) (int (length (xs @ ys)))"
  shows "fst (drawFromStock g stockStack' wasteStack') = rev ys
     \<and> cards (stacks (snd (drawFromStock g stockStack' wasteStack')) stockStack') = xs
     \<and> cards (stacks (snd (drawFromStock g stockStack' wasteStack')) wasteStack')
          = cards (stacks g wasteStack') @ rev ys
     \<and> faceUp (snd (drawFromStock g stockStack' wasteStack'))
          = (\<lambda>c. if c \<in> set ys then True else faceUp g c)
     \<and> settings (gameState (snd (drawFromStock g stockStack' wasteStack')))
          = settings (gameState g)"
proof -
  have k: "nat (min (drawCount (settings (gameState g)))
                    (int (getCardCount (stacks g stockStack')))) = length ys"
    using n cs by (simp add: getCardCount_def)
  have e: "\<not> isEmpty (stacks g stockStack')"
    using cs ys by (simp add: isEmpty_def)
  from drawLoop_effect [OF ne cs di, of "[]"] e k show ?thesis
    by (simp add: drawFromStock_def Let_def case_prod_unfold settings_recordMove)
qed

lemma recycleFold_effect:
  assumes ne: "stockStack' \<noteq> wasteStack'"
  shows "distinct (cards (stacks g wasteStack')) \<Longrightarrow>
     cards (stacks (fold (\<lambda>c h. addCard (flip (removeCard h wasteStack' c) c False) stockStack' c)
                      cs g) wasteStack')
       = filter (\<lambda>x. x \<notin> set cs) (cards (stacks g wasteStack'))
     \<and> cards (stacks (fold (\<lambda>c h. addCard (flip (removeCard h wasteStack' c) c False) stockStack' c)
                      cs g) stockStack')
       = cards (stacks g stockStack') @ cs
     \<and> faceUp (fold (\<lambda>c h. addCard (flip (removeCard h wasteStack' c) c False) stockStack' c)
                      cs g)
       = (\<lambda>x. if x \<in> set cs then False else faceUp g x)
     \<and> gameState (fold (\<lambda>c h. addCard (flip (removeCard h wasteStack' c) c False) stockStack' c)
                      cs g)
       = gameState g"
proof (induction cs arbitrary: g)
  case Nil
  then show ?case by simp
next
  case (Cons c cs)
  let ?g1 = "addCard (flip (removeCard g wasteStack' c) c False) stockStack' c"
  have w1: "cards (stacks ?g1 wasteStack') = filter (\<lambda>x. x \<noteq> c) (cards (stacks g wasteStack'))"
    using ne Cons.prems
    by (simp add: step_simps distinct_remove1_removeAll removeAll_filter_not_eq)
       (metis (mono_tags, lifting) filter_cong)
  have d1: "distinct (cards (stacks ?g1 wasteStack'))"
    unfolding w1 using Cons.prems by simp
  have s1: "cards (stacks ?g1 stockStack') = cards (stacks g stockStack') @ [c]"
    using ne by (simp add: step_simps)
  have f1: "faceUp ?g1 = (faceUp g)(c := False)"
    by (simp add: step_simps)
  have g1: "gameState ?g1 = gameState g"
    by (simp add: step_simps)
  from Cons.IH [OF d1] show ?case
    unfolding fold_Cons comp_apply w1 s1 f1 g1 by (auto simp: fun_eq_iff)
qed

lemma recycle_effect:
  assumes ne: "stockStack' \<noteq> wasteStack'"
    and st: "cards (stacks g stockStack') = []"
    and di: "distinct (cards (stacks g wasteStack'))"
  shows "fst (drawFromStock g stockStack' wasteStack') = rev (cards (stacks g wasteStack'))
     \<and> cards (stacks (snd (drawFromStock g stockStack' wasteStack')) stockStack')
          = rev (cards (stacks g wasteStack'))
     \<and> cards (stacks (snd (drawFromStock g stockStack' wasteStack')) wasteStack') = []
     \<and> faceUp (snd (drawFromStock g stockStack' wasteStack'))
          = (\<lambda>x. if x \<in> set (cards (stacks g wasteStack')) then False else faceUp g x)"
proof (cases "cards (stacks g wasteStack') = []")
  case True
  with st show ?thesis
    by (simp add: drawFromStock_def recycleWasteToStock_def isEmpty_def)
next
  case False
  have f: "filter (\<lambda>x. x \<notin> set (cards (stacks g wasteStack'))) (cards (stacks g wasteStack')) = []"
    by (simp add: filter_empty_conv)
  from recycleFold_effect [OF ne di, of "rev (cards (stacks g wasteStack'))"] st False f
  show ?thesis
    by (simp add: drawFromStock_def recycleWasteToStock_def isEmpty_def Let_def)
qed

lemma drawUntilEmpty_effect:
  assumes ne: "st \<noteq> wa" and di: "distinct cs"
  shows "cards (stacks g st) = take m cs \<Longrightarrow> cards (stacks g wa) = rev (drop m cs) \<Longrightarrow>
     m \<le> length cs \<Longrightarrow> m \<le> k \<Longrightarrow> 1 \<le> drawCount (settings (gameState g)) \<Longrightarrow>
     cards (stacks (drawUntilEmpty k g st wa) st) = []
     \<and> cards (stacks (drawUntilEmpty k g st wa) wa) = rev cs"
proof (induction k arbitrary: g m)
  case 0
  then show ?case by simp
next
  case (Suc k)
  show ?case
  proof (cases "m = 0")
    case True
    with Suc.prems show ?thesis by (simp add: isEmpty_def)
  next
    case False
    define d where "d = drawCount (settings (gameState g))"
    define n where "n = nat (min d (int m))"
    have n1: "1 \<le> n" and nm: "n \<le> m"
      using False Suc.prems(5) by (auto simp: n_def d_def)
    let ?xs = "take (m - n) cs" and ?ys = "drop (m - n) (take m cs)"
    have tk: "take (m - n) (take m cs) = ?xs"
      by (simp add: min_def)
    have "cards (stacks g st) = take (m - n) (take m cs) @ ?ys"
      by (simp only: Suc.prems(1) append_take_drop_id)
    then have split: "cards (stacks g st) = ?xs @ ?ys"
      by (simp only: tk)
    have whole: "?xs @ ?ys = take m cs"
      using split Suc.prems(1) by (rule trans [OF sym])
    have "distinct (take m cs)"
      using di by (rule distinct_take)
    then have dist: "distinct (?xs @ ?ys)"
      by (simp only: whole)
    have lt: "length (take m cs) = m"
      using Suc.prems(3) by simp
    have "length ?ys = m - (m - n)"
      by (simp only: length_drop lt)
    then have len: "length ?ys = n"
      using nm by simp
    have ys: "?ys \<noteq> []"
      using len n1 by auto
    have lenm: "length (?xs @ ?ys) = m"
      by (simp only: whole lt)
    have "int n = min d (int m)"
      using Suc.prems(5) False by (simp add: n_def d_def)
    then have cnt: "int (length ?ys)
                 = min (drawCount (settings (gameState g))) (int (length (?xs @ ?ys)))"
      by (simp only: len lenm d_def)
    let ?g1 = "snd (drawFromStock g st wa)"
    note eff = drawFromStock_draw [OF ne split dist ys cnt]
    have c1: "cards (stacks ?g1 st) = take (m - n) cs"
      by (rule eff [THEN conjunct2, THEN conjunct1])
    have "drop (m - n) (take m cs @ drop m cs) = ?ys @ drop (m - n - m) (drop m cs)"
      by (simp only: drop_append lt)
    moreover have "m - n - m = 0"
      by simp
    ultimately have dr: "drop (m - n) cs = ?ys @ drop m cs"
      by (simp only: append_take_drop_id drop_0)
    have "cards (stacks ?g1 wa) = cards (stacks g wa) @ rev ?ys"
      by (rule eff [THEN conjunct2, THEN conjunct2, THEN conjunct1])
    also have "\<dots> = rev (?ys @ drop m cs)"
      by (simp only: Suc.prems(2) rev_append)
    finally have w1: "cards (stacks ?g1 wa) = rev (drop (m - n) cs)"
      by (simp only: dr)
    have se: "settings (gameState ?g1) = settings (gameState g)"
      by (rule eff [THEN conjunct2, THEN conjunct2, THEN conjunct2, THEN conjunct2])
    have s1: "1 \<le> drawCount (settings (gameState ?g1))"
      using Suc.prems(5) by (simp only: se)
    have b1: "m - n \<le> length cs" "m - n \<le> k"
      using Suc.prems(3,4) n1 by auto
    have ne0: "\<not> isEmpty (stacks g st)"
      using Suc.prems(1,3) False by (simp add: isEmpty_def)
    from Suc.IH [OF c1 w1 b1 s1] ne0 show ?thesis by simp
  qed
qed

text \<open>
  C5. Start from an empty waste and a stock of distinct cards \<open>c1 .. cn\<close>, bottom to top,
  in any face states, with a draw count of at least one. Drawing until the stock is empty
  does empty it (after at most \<open>n\<close> draws), and the next draw call, the recycle, returns
  \<open>c1 .. cn\<close>, leaves the waste empty and the stock holding exactly \<open>c1 .. cn\<close>, bottom to
  top, every one of them face down.
\<close>

theorem recycle_round_trip:
  assumes "st \<noteq> wa"
    and "cards (stacks g wa) = []"
    and "distinct (cards (stacks g st))"
    and "1 \<le> drawCount (settings (gameState g))"
    and "length (cards (stacks g st)) \<le> k"
  shows "isEmpty (stacks (drawUntilEmpty k g st wa) st)
     \<and> fst (drawFromStock (drawUntilEmpty k g st wa) st wa) = cards (stacks g st)
     \<and> cards (stacks (snd (drawFromStock (drawUntilEmpty k g st wa) st wa)) st)
          = cards (stacks g st)
     \<and> cards (stacks (snd (drawFromStock (drawUntilEmpty k g st wa) st wa)) wa) = []
     \<and> (\<forall>c \<in> set (cards (stacks g st)).
           \<not> faceUp (snd (drawFromStock (drawUntilEmpty k g st wa) st wa)) c)"
proof -
  let ?cs = "cards (stacks g st)"
  let ?g1 = "drawUntilEmpty k g st wa"
  have "cards (stacks ?g1 st) = [] \<and> cards (stacks ?g1 wa) = rev ?cs"
    using drawUntilEmpty_effect [OF assms(1) assms(3), of g "length ?cs" k] assms(2,4,5)
    by simp
  then have e: "cards (stacks ?g1 st) = []" and w: "cards (stacks ?g1 wa) = rev ?cs"
    by simp_all
  have d: "distinct (cards (stacks ?g1 wa))"
    using w assms(3) by simp
  from recycle_effect [OF assms(1) e d] e w show ?thesis
    by (simp add: isEmpty_def)
qed

theorem recycle_round_trip_witness:
  "(0::nat) \<noteq> 1 \<and> cards (stacks fiveInStock 1) = []
   \<and> distinct (cards (stacks fiveInStock 0))
   \<and> 1 \<le> drawCount (settings (gameState fiveInStock))
   \<and> length (cards (stacks fiveInStock 0)) \<le> 5
   \<and> faceUp fiveInStock (Card 1 Hearts RK)
   \<and> isEmpty (stacks (drawUntilEmpty 5 fiveInStock 0 1) 0)
   \<and> cards (stacks (snd (drawFromStock (drawUntilEmpty 5 fiveInStock 0 1) 0 1)) 0)
        = [Card 0 Clubs R5, Card 1 Hearts RK, Card 2 Spades RA, Card 3 Diamonds R7,
           Card 4 Clubs RQ]
   \<and> cards (stacks (snd (drawFromStock (drawUntilEmpty 5 fiveInStock 0 1) 0 1)) 1) = []
   \<and> \<not> faceUp (snd (drawFromStock (drawUntilEmpty 5 fiveInStock 0 1) 0 1)) (Card 1 Hearts RK)"
proof -
  have cs: "cards (stacks fiveInStock 0)
              = [Card 0 Clubs R5, Card 1 Hearts RK, Card 2 Spades RA, Card 3 Diamonds R7,
                 Card 4 Clubs RQ]"
    by (simp add: fiveInStock_def)
  have h1: "(0::nat) \<noteq> 1" by simp
  have h2: "cards (stacks fiveInStock 1) = []"
    by (simp add: fiveInStock_def emptyBoard_def)
  have h3: "distinct (cards (stacks fiveInStock 0))"
    by (simp add: cs)
  have h4: "1 \<le> drawCount (settings (gameState fiveInStock))"
    by (simp add: fiveInStock_def emptyBoard_def startGame_def newGameState_def
        defaultSettings_def)
  have h5: "length (cards (stacks fiveInStock 0)) \<le> 5"
    by (simp add: cs)
  have f: "faceUp fiveInStock (Card 1 Hearts RK)"
    by (simp add: fiveInStock_def)
  from recycle_round_trip [OF h1 h2 h3 h4 h5] h1 h2 h3 h4 h5 f show ?thesis
    by (simp add: cs)
qed


lemma three_draws_from_five:
  assumes ne: "st \<noteq> wa"
    and stock: "cards (stacks g st) = [c1, c2, c3, c4, c5]"
    and dist: "distinct (cards (stacks g wa) @ [c1, c2, c3, c4, c5])"
    and dc: "drawCount (settings (gameState g)) = 3"
  shows "fst (drawFromStock g st wa) = [c5, c4, c3]"
    and "cards (stacks (snd (drawFromStock g st wa)) st) = [c1, c2]"
    and "cards (stacks (snd (drawFromStock g st wa)) wa) = cards (stacks g wa) @ [c5, c4, c3]"
    and "faceUp (snd (drawFromStock g st wa)) c5 \<and> faceUp (snd (drawFromStock g st wa)) c4
         \<and> faceUp (snd (drawFromStock g st wa)) c3"
    and "fst (drawFromStock (snd (drawFromStock g st wa)) st wa) = [c2, c1]"
    and "cards (stacks (snd (drawFromStock (snd (drawFromStock g st wa)) st wa)) st) = []"
    and "cards (stacks (snd (drawFromStock (snd (drawFromStock g st wa)) st wa)) wa)
           = cards (stacks g wa) @ [c5, c4, c3, c2, c1]"
    and "fst (drawFromStock (snd (drawFromStock (snd (drawFromStock g st wa)) st wa)) st wa)
           = [c1, c2, c3, c4, c5] @ rev (cards (stacks g wa))"
    and "cards (stacks (snd (drawFromStock (snd (drawFromStock (snd (drawFromStock g st wa))
                                                   st wa)) st wa)) st)
           = [c1, c2, c3, c4, c5] @ rev (cards (stacks g wa))"
    and "cards (stacks (snd (drawFromStock (snd (drawFromStock (snd (drawFromStock g st wa))
                                                   st wa)) st wa)) wa) = []"
    and "\<forall>c \<in> set [c1, c2, c3, c4, c5].
           faceUp (snd (drawFromStock (snd (drawFromStock g st wa)) st wa)) c"
    and "\<forall>c \<in> set ([c1, c2, c3, c4, c5] @ cards (stacks g wa)).
           \<not> faceUp (snd (drawFromStock (snd (drawFromStock (snd (drawFromStock g st wa))
                                                        st wa)) st wa)) c"
proof -
  let ?g1 = "snd (drawFromStock g st wa)"
  let ?g2 = "snd (drawFromStock ?g1 st wa)"
  let ?ws = "cards (stacks g wa)"
  have a1: "cards (stacks g st) = [c1, c2] @ [c3, c4, c5]"
    using stock by simp
  have a2: "distinct ([c1, c2] @ [c3, c4, c5])"
    using dist by simp
  have a3: "int (length [c3, c4, c5])
              = min (drawCount (settings (gameState g))) (int (length ([c1, c2] @ [c3, c4, c5])))"
    using dc by simp
  note e1 = drawFromStock_draw [OF ne a1 a2 _ a3]
  have s1: "cards (stacks ?g1 st) = [c1, c2]"
    and w1: "cards (stacks ?g1 wa) = ?ws @ [c5, c4, c3]"
    and d1: "drawCount (settings (gameState ?g1)) = 3"
    using e1 dc by simp_all
  show "fst (drawFromStock g st wa) = [c5, c4, c3]"
    using e1 by simp
  show "cards (stacks ?g1 st) = [c1, c2]" by (rule s1)
  show "cards (stacks ?g1 wa) = ?ws @ [c5, c4, c3]" by (rule w1)
  show "faceUp ?g1 c5 \<and> faceUp ?g1 c4 \<and> faceUp ?g1 c3"
    using e1 by simp
  have b1: "cards (stacks ?g1 st) = [] @ [c1, c2]"
    using s1 by simp
  have b2: "distinct ([] @ [c1, c2])"
    using dist by simp
  have b3: "int (length [c1, c2])
              = min (drawCount (settings (gameState ?g1))) (int (length ([] @ [c1, c2])))"
    using d1 by simp
  note e2 = drawFromStock_draw [OF ne b1 b2 _ b3]
  have s2: "cards (stacks ?g2 st) = []"
    and w2: "cards (stacks ?g2 wa) = ?ws @ [c5, c4, c3, c2, c1]"
    using e2 w1 by simp_all
  show "fst (drawFromStock ?g1 st wa) = [c2, c1]"
    using e2 by simp
  show "cards (stacks ?g2 st) = []" by (rule s2)
  show "cards (stacks ?g2 wa) = ?ws @ [c5, c4, c3, c2, c1]" by (rule w2)
  have c2: "distinct (cards (stacks ?g2 wa))"
    using dist by (auto simp: w2)
  note e3 = recycle_effect [OF ne s2 c2]
  show "fst (drawFromStock ?g2 st wa) = [c1, c2, c3, c4, c5] @ rev ?ws"
    using e3 by (simp add: w2)
  show "cards (stacks (snd (drawFromStock ?g2 st wa)) st) = [c1, c2, c3, c4, c5] @ rev ?ws"
    using e3 by (simp add: w2)
  show "cards (stacks (snd (drawFromStock ?g2 st wa)) wa) = []"
    using e3 by simp
  have f1: "faceUp ?g1 = (\<lambda>c. if c \<in> set [c3, c4, c5] then True else faceUp g c)"
    by (rule e1 [THEN conjunct2, THEN conjunct2, THEN conjunct2, THEN conjunct1]) simp
  have f2: "faceUp ?g2 = (\<lambda>c. if c \<in> set [c1, c2] then True else faceUp ?g1 c)"
    by (rule e2 [THEN conjunct2, THEN conjunct2, THEN conjunct2, THEN conjunct1]) simp
  show "\<forall>c \<in> set [c1, c2, c3, c4, c5]. faceUp ?g2 c"
    by (simp add: f2 f1)
  have f3: "faceUp (snd (drawFromStock ?g2 st wa))
              = (\<lambda>x. if x \<in> set (cards (stacks ?g2 wa)) then False else faceUp ?g2 x)"
    by (rule e3 [THEN conjunct2, THEN conjunct2, THEN conjunct2])
  show "\<forall>c \<in> set ([c1, c2, c3, c4, c5] @ ?ws). \<not> faceUp (snd (drawFromStock ?g2 st wa)) c"
    by (auto simp: f3 w2)
qed

text \<open>
  C6, as amended. With a draw count of three and exactly five distinct cards
  \<open>c1 .. c5\<close> (bottom to top) in the stock, the first call of \<open>drawFromStock\<close> moves
  the three top cards to the waste, face up and in the order removed, so that the last
  one drawn, \<open>c3\<close>, is the top of the waste; the second call moves the remaining two and
  empties the stock without recycling, after which all five cards lie face up on the
  waste. The third call, made on the empty stock, draws no card: it is the recycle,
  which moves every card of the waste back to the stock, face down, and returns them,
  the five drawn cards first.
\<close>

theorem draw_count_respected:
  assumes "st \<noteq> wa"
    and "cards (stacks g st) = [c1, c2, c3, c4, c5]"
    and "distinct (cards (stacks g wa) @ [c1, c2, c3, c4, c5])"
    and "drawCount (settings (gameState g)) = 3"
  shows "fst (threeDraws g st wa)
           = [[c5, c4, c3], [c2, c1], [c1, c2, c3, c4, c5] @ rev (cards (stacks g wa))]
     \<and> cards (stacks (snd (drawFromStock g st wa)) st) = [c1, c2]
     \<and> cards (stacks (snd (drawFromStock g st wa)) wa) = cards (stacks g wa) @ [c5, c4, c3]
     \<and> faceUp (snd (drawFromStock g st wa)) c5 \<and> faceUp (snd (drawFromStock g st wa)) c4
     \<and> faceUp (snd (drawFromStock g st wa)) c3
     \<and> cards (stacks (snd (drawFromStock (snd (drawFromStock g st wa)) st wa)) st) = []
     \<and> cards (stacks (snd (drawFromStock (snd (drawFromStock g st wa)) st wa)) wa)
          = cards (stacks g wa) @ [c5, c4, c3, c2, c1]
     \<and> cards (stacks (snd (threeDraws g st wa)) st)
          = [c1, c2, c3, c4, c5] @ rev (cards (stacks g wa))
     \<and> (\<forall>c \<in> set [c1, c2, c3, c4, c5].
           faceUp (snd (drawFromStock (snd (drawFromStock g st wa)) st wa)) c)
     \<and> cards (stacks (snd (threeDraws g st wa)) wa) = []
     \<and> (\<forall>c \<in> set ([c1, c2, c3, c4, c5] @ cards (stacks g wa)).
           \<not> faceUp (snd (threeDraws g st wa)) c)"
  using three_draws_from_five [OF assms]
  by (simp add: threeDraws_def case_prod_unfold)

lemma fiveInStock_cards:
  "cards (stacks fiveInStock 0)
     = [Card 0 Clubs R5, Card 1 Hearts RK, Card 2 Spades RA, Card 3 Diamonds R7, Card 4 Clubs RQ]"
  "cards (stacks fiveInStock (Suc 0)) = []"
  "drawCount (settings (gameState fiveInStock)) = 3"
  by (simp_all add: fiveInStock_def emptyBoard_def startGame_def newGameState_def
      defaultSettings_def)

theorem draw_count_respected_witness:
  "(0::nat) \<noteq> 1
   \<and> distinct (cards (stacks fiveInStock 1) @ cards (stacks fiveInStock 0))
   \<and> drawCount (settings (gameState fiveInStock)) = 3
   \<and> fst (threeDraws fiveInStock 0 1)
       = [[Card 4 Clubs RQ, Card 3 Diamonds R7, Card 2 Spades RA],
          [Card 1 Hearts RK, Card 0 Clubs R5],
          [Card 0 Clubs R5, Card 1 Hearts RK, Card 2 Spades RA, Card 3 Diamonds R7,
           Card 4 Clubs RQ]]
   \<and> \<not> faceUp fiveInStock (Card 0 Clubs R5)
   \<and> faceUp (snd (drawFromStock (snd (drawFromStock fiveInStock 0 1)) 0 1)) (Card 0 Clubs R5)
   \<and> faceUp (snd (drawFromStock (snd (drawFromStock fiveInStock 0 1)) 0 1)) (Card 4 Clubs RQ)
   \<and> cards (stacks (snd (threeDraws fiveInStock 0 1)) 1) = []
   \<and> \<not> faceUp (snd (threeDraws fiveInStock 0 1)) (Card 0 Clubs R5)"
proof -
  have f0: "\<not> faceUp fiveInStock (Card 0 Clubs R5)"
    by (simp add: fiveInStock_def)
  have h1: "(0::nat) \<noteq> 1" by simp
  have h3: "distinct (cards (stacks fiveInStock 1)
              @ [Card 0 Clubs R5, Card 1 Hearts RK, Card 2 Spades RA, Card 3 Diamonds R7,
                 Card 4 Clubs RQ])"
    by (simp add: fiveInStock_def emptyBoard_def)
  from draw_count_respected [OF h1 fiveInStock_cards(1) h3 fiveInStock_cards(3)] h3 f0
  show ?thesis
    by (simp add: fiveInStock_cards)
qed

text \<open>
  C6 as stated fails: from five cards in the stock and an empty waste, the three calls
  return 3, 2 and 5 cards, not 3, 2 and 0, and after the third the stock holds five
  cards again.
\<close>

theorem third_draw_moves_five:
  "map length (fst (threeDraws fiveInStock 0 1)) = [3, 2, 5]
   \<and> map length (fst (threeDraws fiveInStock 0 1)) \<noteq> [3, 2, 0]
   \<and> length (cards (stacks (snd (threeDraws fiveInStock 0 1)) 0)) = 5"
proof -
  have h1: "(0::nat) \<noteq> 1" by simp
  have h3: "distinct (cards (stacks fiveInStock 1)
              @ [Card 0 Clubs R5, Card 1 Hearts RK, Card 2 Spades RA, Card 3 Diamonds R7,
                 Card 4 Clubs RQ])"
    by (simp add: fiveInStock_def emptyBoard_def)
  from three_draws_from_five [OF h1 fiveInStock_cards(1) h3 fiveInStock_cards(3)]
  show ?thesis
    by (simp add: threeDraws_def case_prod_unfold fiveInStock_cards)
qed

section \<open>Card conservation\<close>

lemma length_newCards: "length (newCards n xs) = length xs"
  by (induction n xs rule: newCards.induct) auto

lemma length_createDeck: "length createDeck = 52"
  by (simp add: createDeck_def length_newCards cardData_def SUITS_def RANKS_def)

lemma dealColumn_numeral:
  "dealColumn col (numeral k) (g, deck, tableau) =
     (let row = col - pred_numeral k
      in case dealCard deck of
           (None, deck') \<Rightarrow> dealColumn col (pred_numeral k) (g, deck', tableau)
         | (Some c, deck') \<Rightarrow>
             dealColumn col (pred_numeral k)
               (flip g c (row = col), deck', tableau[col := tableau ! col @ [c]]))"
  by (simp add: numeral_eq_Suc)

lemma list_update_numeral:
  "(x # xs)[numeral k := y] = x # xs[pred_numeral k := y]"
  by (simp add: numeral_eq_Suc)

lemma replicate7: "replicate 7 x = [x, x, x, x, x, x, x]"
  by (simp add: numeral_eq_Suc)

lemma shuffle_reverseData:
  "shuffle reverseData =
     [Card 52 Spades RK, Card 53 Spades RQ, Card 54 Spades RJ,
      Card 55 Spades R10, Card 56 Spades R9, Card 57 Spades R8,
      Card 58 Spades R7, Card 59 Spades R6, Card 60 Spades R5,
      Card 61 Spades R4, Card 62 Spades R3, Card 63 Spades R2,
      Card 64 Spades RA, Card 65 Clubs RK, Card 66 Clubs RQ,
      Card 67 Clubs RJ, Card 68 Clubs R10, Card 69 Clubs R9,
      Card 70 Clubs R8, Card 71 Clubs R7, Card 72 Clubs R6, Card 73 Clubs R5,
      Card 74 Clubs R4, Card 75 Clubs R3, Card 76 Clubs R2, Card 77 Clubs RA,
      Card 78 Diamonds RK, Card 79 Diamonds RQ, Card 80 Diamonds RJ,
      Card 81 Diamonds R10, Card 82 Diamonds R9, Card 83 Diamonds R8,
      Card 84 Diamonds R7, Card 85 Diamonds R6, Card 86 Diamonds R5,
      Card 87 Diamonds R4, Card 88 Diamonds R3, Card 89 Diamonds R2,
      Card 90 Diamonds RA, Card 91 Hearts RK, Card 92 Hearts RQ,
      Card 93 Hearts RJ, Card 94 Hearts R10, Card 95 Hearts R9,
      Card 96 Hearts R8, Card 97 Hearts R7, Card 98 Hearts R6,
      Card 99 Hearts R5, Card 100 Hearts R4, Card 101 Hearts R3,
      Card 102 Hearts R2, Card 103 Hearts RA]"
  by (simp add: shuffle_def length_createDeck reverseData_def SUITS_def RANKS_def)


lemmas deal_simps =
  newGame_def shuffle_reverseData dealForSolitaire_def TABLEAU_COLUMNS_def upt7 replicate7
  dealColumn_numeral list_update_numeral dealCard_def flip_def dealCards_def addCard_def
  emptyBoard_def stockStack_def tableauStacks_def newGameState_def reset_def startGame_def
  defaultSettings_def

lemma newGame_reverse: "newGame newGameState reverseData = dealtReverse"
  by (simp add: deal_simps dealtReverse_def)





lemma dealt_types:
  "stype (stacks dealtReverse 0) = Stock"
  "stype (stacks dealtReverse (Suc 0)) = Waste"
  "stype (stacks dealtReverse 2) = Foundation"
  "stype (stacks dealtReverse 3) = Foundation"
  "stype (stacks dealtReverse 4) = Foundation"
  "stype (stacks dealtReverse 5) = Foundation"
  "stype (stacks dealtReverse 6) = Tableau"
  "stype (stacks dealtReverse 7) = Tableau"
  "stype (stacks dealtReverse 8) = Tableau"
  "stype (stacks dealtReverse 9) = Tableau"
  "stype (stacks dealtReverse 10) = Tableau"
  "stype (stacks dealtReverse 11) = Tableau"
  "stype (stacks dealtReverse 12) = Tableau"
  by (simp_all add: dealtReverse_def emptyBoard_def)

lemma dealt_tops:
  "getTopCard (stacks dealtReverse 0) = Some (Card 52 Spades RK)"
  "getTopCard (stacks dealtReverse (Suc 0)) = None"
  "getTopCard (stacks dealtReverse 6) = Some (Card 103 Hearts RA)"
  "getTopCard (stacks dealtReverse 7) = Some (Card 101 Hearts R3)"
  "getTopCard (stacks dealtReverse 8) = Some (Card 98 Hearts R6)"
  "getTopCard (stacks dealtReverse 9) = Some (Card 94 Hearts R10)"
  "getTopCard (stacks dealtReverse 10) = Some (Card 89 Diamonds R2)"
  "getTopCard (stacks dealtReverse 11) = Some (Card 83 Diamonds R8)"
  "getTopCard (stacks dealtReverse 12) = Some (Card 76 Clubs R2)"
  by (simp_all add: dealtReverse_def emptyBoard_def getTopCard_def)

lemma dealt_faces:
  "faceUp dealtReverse (Card 52 Spades RK) = False"
  "faceUp dealtReverse (Card 103 Hearts RA) = True"
  "faceUp dealtReverse (Card 101 Hearts R3) = True"
  "faceUp dealtReverse (Card 98 Hearts R6) = True"
  "faceUp dealtReverse (Card 94 Hearts R10) = True"
  "faceUp dealtReverse (Card 89 Diamonds R2) = True"
  "faceUp dealtReverse (Card 83 Diamonds R8) = True"
  "faceUp dealtReverse (Card 76 Clubs R2) = True"
  by (simp_all add: dealtReverse_def)

lemma dealt_foundations:
  "cards (stacks dealtReverse 2) = []"
  "cards (stacks dealtReverse 3) = []"
  "cards (stacks dealtReverse 4) = []"
  "cards (stacks dealtReverse 5) = []"
  by (simp_all add: dealtReverse_def emptyBoard_def)


lemma dealt_candidates: "findAutoCompletableCards dealtReverse getAllStacks =
    map (\<lambda>f. \<lparr>hcard = Card 103 Hearts RA, hfromStack = 6, htoStack = f, htype = None\<rparr>) [2, 3, 4, 5]"
  by (simp add: getAllStacks_eq findAutoCompletableCards_def dealt_types dealt_tops
     dealt_faces dealt_foundations canMoveToFoundation_def getValue_def)

lemma executeSingleCardMove_to_foundation:
  assumes v: "validateMove g c fr to"
    and tf: "stype (stacks g to) = Foundation"
    and ff: "stype (stacks g fr) \<noteq> Foundation"
    and fc: "foundationCards (gameState g) + 1 \<noteq> TOTAL_CARDS"
  shows "fst (executeSingleCardMove g c fr to)"
    and "cards (stacks (snd (executeSingleCardMove g c fr to)) s)
           = cards (stacks (addCard (removeCard g fr c) to c) s)"
    and "stype (stacks (snd (executeSingleCardMove g c fr to)) s) = stype (stacks g s)"
    and "faceUp (snd (executeSingleCardMove g c fr to)) = faceUp g"
    and "isPlaying (gameState (snd (executeSingleCardMove g c fr to))) = isPlaying (gameState g)"
    and "foundationCards (gameState (snd (executeSingleCardMove g c fr to)))
           = foundationCards (gameState g) + 1"
  using v tf ff fc
  by (simp_all add: executeSingleCardMove_def Let_def case_prod_unfold addToFoundation_def
      updateScore_def recordMove_def isPlaying_def step_simps)


lemma ace_to_empty_foundation:
  assumes pl: "isPlaying (gameState g)"
    and fu: "faceUp g c"
    and ace: "getValue c = 1"
    and tf: "stype (stacks g f) = Foundation"
    and em: "cards (stacks g f) = []"
    and ff: "stype (stacks g t) \<noteq> Foundation"
    and fc: "foundationCards (gameState g) + 1 \<noteq> TOTAL_CARDS"
  shows "fst (executeSingleCardMove g c t f)"
    and "cards (stacks (snd (executeSingleCardMove g c t f)) s)
           = (if s = f then [c]
              else if s = t then remove1 c (cards (stacks g t))
              else cards (stacks g s))"
    and "stype (stacks (snd (executeSingleCardMove g c t f)) s) = stype (stacks g s)"
    and "faceUp (snd (executeSingleCardMove g c t f)) c"
    and "isPlaying (gameState (snd (executeSingleCardMove g c t f)))"
    and "foundationCards (gameState (snd (executeSingleCardMove g c t f)))
           = foundationCards (gameState g) + 1"
proof -
  have v: "validateMove g c t f"
    using pl fu ace tf em by (simp add: validateMove_def canMoveToFoundation_def)
  note eff = executeSingleCardMove_to_foundation [OF v tf ff fc]
  have ne: "t \<noteq> f"
    using tf ff by auto
  show "fst (executeSingleCardMove g c t f)"
    by (rule eff(1))
  show "cards (stacks (snd (executeSingleCardMove g c t f)) s)
           = (if s = f then [c]
              else if s = t then remove1 c (cards (stacks g t))
              else cards (stacks g s))"
    using ne em by (simp add: eff(2) step_simps)
  show "stype (stacks (snd (executeSingleCardMove g c t f)) s) = stype (stacks g s)"
    by (rule eff(3))
  show "faceUp (snd (executeSingleCardMove g c t f)) c"
    using fu by (simp add: eff(4))
  show "isPlaying (gameState (snd (executeSingleCardMove g c t f)))"
    using pl by (simp add: eff(5))
  show "foundationCards (gameState (snd (executeSingleCardMove g c t f)))
           = foundationCards (gameState g) + 1"
    by (rule eff(6))
qed

lemma dealt_cards:
  "cards (stacks dealtReverse 0) =
     [Card 75 Clubs R3, Card 74 Clubs R4, Card 73 Clubs R5, Card 72 Clubs R6,
      Card 71 Clubs R7, Card 70 Clubs R8, Card 69 Clubs R9, Card 68 Clubs R10,
      Card 67 Clubs RJ, Card 66 Clubs RQ, Card 65 Clubs RK, Card 64 Spades RA,
      Card 63 Spades R2, Card 62 Spades R3, Card 61 Spades R4, Card 60 Spades R5,
      Card 59 Spades R6, Card 58 Spades R7, Card 57 Spades R8, Card 56 Spades R9,
      Card 55 Spades R10, Card 54 Spades RJ, Card 53 Spades RQ, Card 52 Spades RK]"
  "cards (stacks dealtReverse (Suc 0)) = []"
  "cards (stacks dealtReverse 6) = [Card 103 Hearts RA]"
  "cards (stacks dealtReverse 7) = [Card 102 Hearts R2, Card 101 Hearts R3]"
  "cards (stacks dealtReverse 8) = [Card 100 Hearts R4, Card 99 Hearts R5, Card 98 Hearts R6]"
  "cards (stacks dealtReverse 9) =
     [Card 97 Hearts R7, Card 96 Hearts R8, Card 95 Hearts R9, Card 94 Hearts R10]"
  "cards (stacks dealtReverse 10) =
     [Card 93 Hearts RJ, Card 92 Hearts RQ, Card 91 Hearts RK, Card 90 Diamonds RA,
      Card 89 Diamonds R2]"
  "cards (stacks dealtReverse 11) =
     [Card 88 Diamonds R3, Card 87 Diamonds R4, Card 86 Diamonds R5, Card 85 Diamonds R6,
      Card 84 Diamonds R7, Card 83 Diamonds R8]"
  "cards (stacks dealtReverse 12) =
     [Card 82 Diamonds R9, Card 81 Diamonds R10, Card 80 Diamonds RJ, Card 79 Diamonds RQ,
      Card 78 Diamonds RK, Card 77 Clubs RA, Card 76 Clubs R2]"
  by (simp_all add: dealtReverse_def emptyBoard_def)

lemma dealt_state:
  "isPlaying (gameState dealtReverse)"
  "foundationCards (gameState dealtReverse) = 0"
  by (simp_all add: dealtReverse_def isPlaying_def startGame_def reset_def newGameState_def)

text \<open>
  C1, at a failing input. A new game is dealt from the deck in the order \<open>reverseData\<close>:
  the board holds 52 cards, no card twice, and the ace of hearts lies face up, alone,
  on the first tableau column. One call of \<open>executeAutoComplete\<close> on this fresh deal
  returns \<open>true\<close> and leaves the ace of hearts in each of the four foundation stacks at
  once: the card is on the board four times, and the board holds 55 cards.
\<close>

theorem autoComplete_duplicates_ace:
  "size (boardCards (newGame newGameState reverseData)) = 52
   \<and> distinct (concat (map (\<lambda>s. cards (stacks (newGame newGameState reverseData) s))
                          getAllStacks))
   \<and> fst (executeAutoComplete (newGame newGameState reverseData) getAllStacks)
   \<and> map (\<lambda>s. cards (stacks (snd (executeAutoComplete (newGame newGameState reverseData)
                                       getAllStacks)) s)) foundationStacks
        = [[Card 103 Hearts RA], [Card 103 Hearts RA], [Card 103 Hearts RA],
           [Card 103 Hearts RA]]
   \<and> count (boardCards (snd (executeAutoComplete (newGame newGameState reverseData)
                                 getAllStacks))) (Card 103 Hearts RA) = 4
   \<and> size (boardCards (snd (executeAutoComplete (newGame newGameState reverseData)
                                getAllStacks))) = 55"
proof -
  let ?a = "Card 103 Hearts RA"
  define g1 where "g1 = snd (executeSingleCardMove dealtReverse ?a 6 2)"
  define g2 where "g2 = snd (executeSingleCardMove g1 ?a 6 3)"
  define g3 where "g3 = snd (executeSingleCardMove g2 ?a 6 4)"
  define g4 where "g4 = snd (executeSingleCardMove g3 ?a 6 5)"
  have ace: "getValue ?a = 1"
    by (simp add: getValue_def)
  have tc: "(0::int) + 1 \<noteq> TOTAL_CARDS" "(0::int) + 1 + 1 \<noteq> TOTAL_CARDS"
    "(0::int) + 1 + 1 + 1 \<noteq> TOTAL_CARDS" "(0::int) + 1 + 1 + 1 + 1 \<noteq> TOTAL_CARDS"
    by (simp_all add: TOTAL_CARDS_def)
  note s1 = ace_to_empty_foundation
    [of dealtReverse ?a 2 6, folded g1_def, OF dealt_state(1) _ ace]
  have e1: "cards (stacks g1 s) =
              (if s = 2 then [?a] else if s = 6 then [] else cards (stacks dealtReverse s))"
       and t1: "stype (stacks g1 s) = stype (stacks dealtReverse s)"
       and f1: "faceUp g1 ?a" and p1: "isPlaying (gameState g1)"
       and c1: "foundationCards (gameState g1) = 0 + 1" for s
    using s1 tc by (simp_all add: dealt_faces dealt_types dealt_foundations dealt_cards dealt_state)
  note s2 = ace_to_empty_foundation [of g1 ?a 3 6, folded g2_def, OF p1 f1 ace]
  have e2: "cards (stacks g2 s) =
              (if s = 3 then [?a] else if s = 6 then [] else cards (stacks g1 s))"
       and t2: "stype (stacks g2 s) = stype (stacks dealtReverse s)"
       and f2: "faceUp g2 ?a" and p2: "isPlaying (gameState g2)"
       and c2: "foundationCards (gameState g2) = 0 + 1 + 1" for s
    using s2 tc by (simp_all add: t1 e1 c1 dealt_types dealt_foundations)
  note s3 = ace_to_empty_foundation [of g2 ?a 4 6, folded g3_def, OF p2 f2 ace]
  have e3: "cards (stacks g3 s) =
              (if s = 4 then [?a] else if s = 6 then [] else cards (stacks g2 s))"
       and t3: "stype (stacks g3 s) = stype (stacks dealtReverse s)"
       and f3: "faceUp g3 ?a" and p3: "isPlaying (gameState g3)"
       and c3: "foundationCards (gameState g3) = 0 + 1 + 1 + 1" for s
    using s3 tc by (simp_all add: t2 e2 e1 c2 dealt_types dealt_foundations)
  note s4 = ace_to_empty_foundation [of g3 ?a 5 6, folded g4_def, OF p3 f3 ace]
  have e4: "cards (stacks g4 s) =
              (if s = 5 then [?a] else if s = 6 then [] else cards (stacks g3 s))" for s
    using s4 tc by (simp_all add: t3 e3 e2 e1 c3 dealt_types dealt_foundations)
  have run: "executeAutoComplete dealtReverse getAllStacks = (True, g4)"
    by (simp add: executeAutoComplete_def dealt_candidates g1_def g2_def g3_def g4_def)
  have before: "size (boardCards dealtReverse) = 52"
    by (simp add: boardCards_def getAllStacks_eq dealt_cards dealt_foundations)
  have dist: "distinct (concat (map (\<lambda>s. cards (stacks dealtReverse s)) getAllStacks))"
    by (simp add: getAllStacks_eq dealt_cards dealt_foundations)
  have fnd: "map (\<lambda>s. cards (stacks g4 s)) foundationStacks = [[?a], [?a], [?a], [?a]]"
    by (simp add: foundationStacks_def FOUNDATION_PILES_def upt4 e4 e3 e2 e1)
  have cnt: "count (boardCards g4) ?a = 4"
    by (simp add: boardCards_def getAllStacks_eq e4 e3 e2 e1 dealt_cards dealt_foundations)
  have sz: "size (boardCards g4) = 55"
    by (simp add: boardCards_def getAllStacks_eq e4 e3 e2 e1 dealt_cards dealt_foundations)
  from run before dist fnd cnt sz show ?thesis
    by (simp add: newGame_reverse)
qed


section \<open>Auto-complete\<close>

lemma in_concat_map: "x \<in> set (f s) \<Longrightarrow> s \<in> set xs \<Longrightarrow> x \<in> set (concat (map f xs))"
  by auto

lemma findAutoCompletableCards_iff:
  "h \<in> set (findAutoCompletableCards g allStacks) \<longleftrightarrow>
     hfromStack h \<in> set allStacks \<and> stype (stacks g (hfromStack h)) \<noteq> Foundation
     \<and> getTopCard (stacks g (hfromStack h)) = Some (hcard h) \<and> faceUp g (hcard h)
     \<and> htoStack h \<in> set allStacks \<and> stype (stacks g (htoStack h)) = Foundation
     \<and> canMoveToFoundation g (hcard h) (htoStack h) \<and> htype h = None"
proof (cases h)
  case (fields c s f t)
  have "h \<in> set (findAutoCompletableCards g allStacks) \<longleftrightarrow>
          (\<exists>s' \<in> set allStacks. stype (stacks g s') \<noteq> Foundation
             \<and> (\<exists>c'. getTopCard (stacks g s') = Some c' \<and> faceUp g c'
                  \<and> (\<exists>f' \<in> set allStacks. stype (stacks g f') = Foundation
                        \<and> canMoveToFoundation g c' f'
                        \<and> h = \<lparr>hcard = c', hfromStack = s', htoStack = f', htype = None\<rparr>)))"
    (is "?in \<longleftrightarrow> ?ex")
  proof
    assume ?in
    then show ?ex
      by (auto simp: findAutoCompletableCards_def Let_def split: option.splits if_splits)
  next
    assume ?ex
    then obtain s' c' f' where m: "s' \<in> set allStacks" "stype (stacks g s') \<noteq> Foundation"
      "getTopCard (stacks g s') = Some c'" "faceUp g c'" "f' \<in> set allStacks"
      "stype (stacks g f') = Foundation" "canMoveToFoundation g c' f'"
      "h = \<lparr>hcard = c', hfromStack = s', htoStack = f', htype = None\<rparr>"
      by blast
    show ?in
      unfolding findAutoCompletableCards_def Let_def
      by (rule in_concat_map [where s = s']) (use m in auto)
  qed
  also have "\<dots> \<longleftrightarrow>
     hfromStack h \<in> set allStacks \<and> stype (stacks g (hfromStack h)) \<noteq> Foundation
     \<and> getTopCard (stacks g (hfromStack h)) = Some (hcard h) \<and> faceUp g (hcard h)
     \<and> htoStack h \<in> set allStacks \<and> stype (stacks g (htoStack h)) = Foundation
     \<and> canMoveToFoundation g (hcard h) (htoStack h) \<and> htype h = None"
    unfolding fields by auto
  finally show ?thesis .
qed

lemma validateMove_succeeds:
  "validateMove g c fr to \<Longrightarrow> fst (executeSingleCardMove g c fr to)"
  by (simp add: executeSingleCardMove_def Let_def case_prod_unfold)

lemma candidate_valid:
  assumes "h \<in> set (findAutoCompletableCards g allStacks)" and "isPlaying (gameState g)"
  shows "validateMove g (hcard h) (hfromStack h) (htoStack h)"
  using assms by (simp add: findAutoCompletableCards_iff validateMove_def)

lemma sweep_not_playing:
  "\<not> isPlaying (gameState g) \<Longrightarrow>
     fold (\<lambda>h k. snd (executeSingleCardMove k (hcard h) (hfromStack h) (htoStack h))) hs g = g
     \<and> True \<notin> set (sweepResults g hs)"
  by (induction hs) (simp_all add: executeSingleCardMove_def validateMove_def)

lemma twoOnAce_after:
  "findAutoCompletableCards (snd (executeAutoComplete twoOnAce getAllStacks)) getAllStacks \<noteq> []"
proof -
  let ?a = "Card 0 Hearts RA" and ?b = "Card 1 Hearts R2"
  have types: "stype (stacks twoOnAce s) = stype (stacks (emptyBoard newGameState) s)" for s
    by (simp add: twoOnAce_def emptyBoard_def)
  have et: "stype (stacks (emptyBoard newGameState) 2) = Foundation"
    "stype (stacks (emptyBoard newGameState) 6) = Tableau"
    by (simp_all add: emptyBoard_def)
  have cand: "findAutoCompletableCards twoOnAce getAllStacks
                = [\<lparr>hcard = ?a, hfromStack = 6, htoStack = 2, htype = None\<rparr>]"
    by (simp add: getAllStacks_eq findAutoCompletableCards_def twoOnAce_def emptyBoard_def
        getTopCard_def canMoveToFoundation_def getValue_def)
  define g1 where "g1 = snd (executeSingleCardMove twoOnAce ?a 6 2)"
  have run: "snd (executeAutoComplete twoOnAce getAllStacks) = g1"
    by (simp add: executeAutoComplete_def cand g1_def)
  have pl: "isPlaying (gameState twoOnAce)"
    by (simp add: twoOnAce_def emptyBoard_def isPlaying_def startGame_def newGameState_def)
  have fu: "faceUp twoOnAce c" for c
    by (simp add: twoOnAce_def)
  have ace: "getValue ?a = 1"
    by (simp add: getValue_def)
  have em: "cards (stacks twoOnAce 2) = []"
    by (simp add: twoOnAce_def emptyBoard_def)
  have fc: "foundationCards (gameState twoOnAce) + 1 \<noteq> TOTAL_CARDS"
    by (simp add: twoOnAce_def emptyBoard_def startGame_def newGameState_def TOTAL_CARDS_def)
  have v: "validateMove twoOnAce ?a 6 2"
    using pl ace em by (simp add: validateMove_def canMoveToFoundation_def fu types et)
  have tf: "stype (stacks twoOnAce 2) = Foundation" and ff: "stype (stacks twoOnAce 6) \<noteq> Foundation"
    by (simp_all add: types et)
  note eff = executeSingleCardMove_to_foundation [OF v tf ff fc, folded g1_def]
  have c6: "cards (stacks g1 6) = [?b]" and c2: "cards (stacks g1 2) = [?a]"
    by (simp_all add: eff(2) step_simps twoOnAce_def emptyBoard_def)
  let ?h = "\<lparr>hcard = ?b, hfromStack = 6, htoStack = 2, htype = None\<rparr>"
  have "?h \<in> set (findAutoCompletableCards g1 getAllStacks)"
    by (simp add: findAutoCompletableCards_iff getAllStacks_eq eff(3) eff(4) types et fu
        getTopCard_def c6 c2 canMoveToFoundation_def getValue_def)
  then show ?thesis
    unfolding run by auto
qed

text \<open>
  C7, as amended. One call of \<open>executeAutoComplete\<close> is one sweep: it lists every pair
  of a face-up top card of a non-foundation stack and a foundation that accepts it, as
  the stacks are at the start, and runs \<open>executeSingleCardMove\<close> once for each entry of
  that list, in order; it returns \<open>true\<close> if and only if the list is not empty. While the
  game is playing this is if and only if at least one of the moves is made. While it is
  not playing every move is refused and the game stays as it was, whatever is returned.
  The sweep is not repeated: on \<open>twoOnAce\<close> the list is not empty again after the call.
\<close>

theorem autoComplete_single_sweep:
  "(fst (executeAutoComplete g allStacks) \<longleftrightarrow> findAutoCompletableCards g allStacks \<noteq> [])
   \<and> (h \<in> set (findAutoCompletableCards g allStacks) \<longleftrightarrow>
        hfromStack h \<in> set allStacks \<and> stype (stacks g (hfromStack h)) \<noteq> Foundation
        \<and> getTopCard (stacks g (hfromStack h)) = Some (hcard h) \<and> faceUp g (hcard h)
        \<and> htoStack h \<in> set allStacks \<and> stype (stacks g (htoStack h)) = Foundation
        \<and> canMoveToFoundation g (hcard h) (htoStack h) \<and> htype h = None)
   \<and> snd (executeAutoComplete g allStacks)
        = fold (\<lambda>h k. snd (executeSingleCardMove k (hcard h) (hfromStack h) (htoStack h)))
               (findAutoCompletableCards g allStacks) g
   \<and> (isPlaying (gameState g) \<longrightarrow>
        (fst (executeAutoComplete g allStacks) \<longleftrightarrow>
           True \<in> set (sweepResults g (findAutoCompletableCards g allStacks))))
   \<and> (\<not> isPlaying (gameState g) \<longrightarrow> snd (executeAutoComplete g allStacks) = g)
   \<and> findAutoCompletableCards (snd (executeAutoComplete twoOnAce getAllStacks)) getAllStacks
        \<noteq> []"
  (is "?ret \<and> ?finds \<and> ?sweep \<and> ?playing \<and> ?paused \<and> ?again")
proof -
  have a: ?ret
    by (simp add: executeAutoComplete_def Let_def)
  have b: ?finds
    by (rule findAutoCompletableCards_iff)
  have c: ?sweep
    by (simp add: executeAutoComplete_def Let_def)
  have d: ?playing
  proof
    assume pl: "isPlaying (gameState g)"
    show "fst (executeAutoComplete g allStacks) \<longleftrightarrow>
            True \<in> set (sweepResults g (findAutoCompletableCards g allStacks))"
    proof (cases "findAutoCompletableCards g allStacks")
      case Nil
      then show ?thesis by (simp add: executeAutoComplete_def)
    next
      case (Cons x xs)
      then have "x \<in> set (findAutoCompletableCards g allStacks)" by simp
      from validateMove_succeeds [OF candidate_valid [OF this pl]] Cons show ?thesis
        by (simp add: executeAutoComplete_def)
    qed
  qed
  have e: ?paused
    using sweep_not_playing [of g "findAutoCompletableCards g allStacks"]
    by (simp add: executeAutoComplete_def Let_def)
  from a b c d e twoOnAce_after show ?thesis by (intro conjI)
qed

theorem autoComplete_single_sweep_witness:
  "isPlaying (gameState twoOnAce)
   \<and> fst (executeAutoComplete twoOnAce getAllStacks)
   \<and> True \<in> set (sweepResults twoOnAce (findAutoCompletableCards twoOnAce getAllStacks))"
proof -
  have pl: "isPlaying (gameState twoOnAce)"
    by (simp add: twoOnAce_def emptyBoard_def isPlaying_def startGame_def newGameState_def)
  have cand: "findAutoCompletableCards twoOnAce getAllStacks \<noteq> []"
    by (simp add: getAllStacks_eq findAutoCompletableCards_def twoOnAce_def emptyBoard_def
        getTopCard_def canMoveToFoundation_def getValue_def)
  from autoComplete_single_sweep [of twoOnAce getAllStacks
      "\<lparr>hcard = Card 0 Hearts RA, hfromStack = 6, htoStack = 2, htype = None\<rparr>"] pl cand show ?thesis
    by blast
qed

text \<open>
  C7 as stated fails: on a paused game with an ace to play, \<open>executeAutoComplete\<close>
  returns \<open>true\<close> although no move is made and the game is as it was.
\<close>

theorem autoComplete_true_without_move:
  "\<not> isPlaying (gameState pausedAce)
   \<and> fst (executeAutoComplete pausedAce getAllStacks)
   \<and> True \<notin> set (sweepResults pausedAce (findAutoCompletableCards pausedAce getAllStacks))
   \<and> snd (executeAutoComplete pausedAce getAllStacks) = pausedAce"
proof -
  have np: "\<not> isPlaying (gameState pausedAce)"
    by (simp add: pausedAce_def emptyBoard_def isPlaying_def)
  have cand: "findAutoCompletableCards pausedAce getAllStacks \<noteq> []"
    by (simp add: getAllStacks_eq findAutoCompletableCards_def pausedAce_def emptyBoard_def
        getTopCard_def canMoveToFoundation_def getValue_def)
  from sweep_not_playing [OF np, of "findAutoCompletableCards pausedAce getAllStacks"] np cand
  show ?thesis
    by (simp add: executeAutoComplete_def Let_def)
qed

end
